theory Spec2Isabelle
  imports Main "HOL-Library.Word" "HOL-Library.Multiset" "HOL-Library.Product_Lexorder"
begin

section \<open>Images\<close>

text \<open>
  Both scripts are sequences of Pillow calls on decoded images. An image is its
  size \<open>(width, height)\<close> and its pixel data; the colour mode is the shape of the data.
  The modes covered are the 8-bit ones a logo or a \<^verbatim>\<open>.webp\<close> file decodes to:
  \<^verbatim>\<open>L\<close> (grey), \<^verbatim>\<open>LA\<close> (grey with alpha), \<^verbatim>\<open>P\<close> (paletted; the palette
  entries carry the alpha of a transparency chunk, 255 without one), \<^verbatim>\<open>RGB\<close> and
  \<^verbatim>\<open>RGBA\<close>. Colour-key transparency kept in the metadata of an \<^verbatim>\<open>L\<close> or
  \<^verbatim>\<open>RGB\<close> file is not part of the model.
\<close>

datatype mode = Mode_L | Mode_LA | Mode_P | Mode_RGB | Mode_RGBA

type_synonym byte = "8 word"
type_synonym rgb = "byte \<times> byte \<times> byte"
type_synonym rgba = "byte \<times> byte \<times> byte \<times> byte"

datatype raster =
    Pix_L "byte list"
  | Pix_LA "(byte \<times> byte) list"
  | Pix_P "byte list" "rgba list"
  | Pix_RGB "rgb list"
  | Pix_RGBA "rgba list"

record image =
  im_size :: "nat \<times> nat"
  im_data :: raster

fun raster_mode :: "raster \<Rightarrow> mode" where
  "raster_mode (Pix_L ls) = Mode_L"
| "raster_mode (Pix_LA ps) = Mode_LA"
| "raster_mode (Pix_P ixs pal) = Mode_P"
| "raster_mode (Pix_RGB ps) = Mode_RGB"
| "raster_mode (Pix_RGBA ps) = Mode_RGBA"

definition im_mode :: "image \<Rightarrow> mode" where
  "im_mode img = raster_mode (im_data img)"

definition palette_entry :: "rgba list \<Rightarrow> byte \<Rightarrow> rgba" where
  \<comment> \<open>a palette has 256 entries; the ones never set are opaque black\<close>
  "palette_entry pal i = (if unat i < length pal then pal ! unat i else (0, 0, 0, 255))"

text \<open>The alpha values an image carries: none for \<^verbatim>\<open>L\<close> and \<^verbatim>\<open>RGB\<close>.\<close>

fun alpha_of :: "rgba \<Rightarrow> byte" where
  "alpha_of (r, g, b, a) = a"

fun alphas :: "raster \<Rightarrow> byte list option" where
  "alphas (Pix_L ls) = None"
| "alphas (Pix_LA ps) = Some (map snd ps)"
| "alphas (Pix_P ixs pal) = Some (map (\<lambda>i. alpha_of (palette_entry pal i)) ixs)"
| "alphas (Pix_RGB ps) = None"
| "alphas (Pix_RGBA ps) = Some (map alpha_of ps)"

subsection \<open>\<^verbatim>\<open>Image.convert\<close>\<close>

text \<open>
  \<^verbatim>\<open>img.convert("RGBA")\<close> and \<^verbatim>\<open>img.convert("RGB")\<close>, pixel by pixel: grey is
  copied to the three colour channels, a palette index is looked up, a missing alpha
  becomes 255, and conversion to \<^verbatim>\<open>RGB\<close> drops the alpha byte and keeps the colour
  bytes as stored. Converting to the mode an image already has returns a copy.
\<close>

fun to_rgba :: "raster \<Rightarrow> rgba list" where
  "to_rgba (Pix_L ls) = map (\<lambda>l. (l, l, l, 255)) ls"
| "to_rgba (Pix_LA ps) = map (\<lambda>(l, a). (l, l, l, a)) ps"
| "to_rgba (Pix_P ixs pal) = map (palette_entry pal) ixs"
| "to_rgba (Pix_RGB ps) = map (\<lambda>(r, g, b). (r, g, b, 255)) ps"
| "to_rgba (Pix_RGBA ps) = ps"

fun to_rgb :: "raster \<Rightarrow> rgb list" where
  "to_rgb (Pix_L ls) = map (\<lambda>l. (l, l, l)) ls"
| "to_rgb (Pix_LA ps) = map (\<lambda>(l, a). (l, l, l)) ps"
| "to_rgb (Pix_P ixs pal) = map (\<lambda>i. case palette_entry pal i of (r, g, b, a) \<Rightarrow> (r, g, b)) ixs"
| "to_rgb (Pix_RGB ps) = ps"
| "to_rgb (Pix_RGBA ps) = map (\<lambda>(r, g, b, a). (r, g, b)) ps"

definition convert_RGBA :: "image \<Rightarrow> image" where
  "convert_RGBA img = img\<lparr>im_data := Pix_RGBA (to_rgba (im_data img))\<rparr>"

definition convert_RGB :: "image \<Rightarrow> image" where
  "convert_RGB img = img\<lparr>im_data := Pix_RGB (to_rgb (im_data img))\<rparr>"

subsection \<open>\<^verbatim>\<open>Image.new\<close> and \<^verbatim>\<open>Image.paste\<close> with a mask\<close>

datatype error =
    FileNotFoundError
  | UnidentifiedImageError
  | PermissionError
  | OSError
  | ValueError
  | IndexError
  | OverflowError
  | MemoryError

definition Image_new_RGBA :: "nat \<times> nat \<Rightarrow> rgba \<Rightarrow> image" where
  "Image_new_RGBA sz colour =
     \<lparr>im_size = sz, im_data = Pix_RGBA (replicate (fst sz * snd sz) colour)\<rparr>"

text \<open>
  Pasting through a mask blends every byte of the destination with the pasted byte,
  weighted by the mask's alpha \<open>m\<close>: Pillow's \<^verbatim>\<open>BLEND8\<close>, which divides by 255 with
  two shifts.
\<close>

definition div255 :: "nat \<Rightarrow> nat" where
  "div255 a = (let t = a + 128 in (t div 256 + t) div 256)"

definition blend8 :: "byte \<Rightarrow> byte \<Rightarrow> byte \<Rightarrow> byte" where
  "blend8 m in1 in2 = of_nat (div255 (unat in1 * (255 - unat m) + unat in2 * unat m))"

fun blend_cell :: "byte \<Rightarrow> rgba \<Rightarrow> rgba \<Rightarrow> rgba" where
  "blend_cell m (r1, g1, b1, a1) (r2, g2, b2, a2) =
     (blend8 m r1 r2, blend8 m g1 g2, blend8 m b1 b2, blend8 m a1 a2)"

fun paste_cells :: "rgba list \<Rightarrow> rgba list \<Rightarrow> byte list \<Rightarrow> rgba list" where
  "paste_cells (d # ds) (p # ps) (m # ms) = blend_cell m d p # paste_cells ds ps ms"
| "paste_cells ds ps ms = ds"

fun mask_band :: "raster \<Rightarrow> byte list option" where
  \<comment> \<open>the band of a mask image that weights the paste; an image without one is refused\<close>
  "mask_band (Pix_L ls) = Some ls"
| "mask_band (Pix_LA ps) = Some (map snd ps)"
| "mask_band (Pix_RGBA ps) = Some (map alpha_of ps)"
| "mask_band (Pix_P ixs pal) = None"
| "mask_band (Pix_RGB ps) = None"

definition Image_paste :: "image \<Rightarrow> image \<Rightarrow> image \<Rightarrow> error + image" where
  \<comment> \<open>\<^verbatim>\<open>dst.paste(im, (0, 0), msk)\<close> into an RGBA destination: \<open>im\<close> is converted to
      the destination's mode first. The scripts paste into no other mode.\<close>
  "Image_paste dst im msk =
     (case im_data dst of
        Pix_RGBA ds \<Rightarrow>
          (case mask_band (im_data msk) of
             None \<Rightarrow> Inl ValueError
           | Some ms \<Rightarrow> Inr (dst\<lparr>im_data := Pix_RGBA (paste_cells ds (to_rgba (im_data im)) ms)\<rparr>))
      | _ \<Rightarrow> Inl ValueError)"

section \<open>Files, console and platform\<close>

text \<open>
  A file written by an encoder is the format and the frames the encoder stored; any
  other file is its bytes. File names are relative to the script's directory, where
  both scripts read and write. The console is the list of messages printed, one
  constructor for each message template of the scripts.
\<close>

datatype format = PNG | JPEG | WEBP | ICO

datatype content = Encoded format "image list" | Bytes "byte list"

datatype message =
    No_webp_files
  | Skip_ico string string
  | Generated_ico string string
  | Error_converting string error
  | Logo_not_found string
  | Error_opening string error
  | Skip_exists string
  | Generated_sized string nat nat
  | Generated_multi string
  | Error_generating string error
  | Replaced_if_existed string
  | Replaced_sized string nat nat
  | Replaced string

record world =
  files :: "string \<rightharpoonup> content"
  out :: "message list"

definition print :: "message \<Rightarrow> world \<Rightarrow> world" where
  "print m w = w\<lparr>out := out w @ [m]\<rparr>"

definition exists :: "world \<Rightarrow> string \<Rightarrow> bool" where
  "exists w path = (files w path \<noteq> None)"

text \<open>
  What the scripts take from Pillow and the operating system without fixing it: the
  decoders (\<open>decode\<close> reads the header and the pixel data of a file, \<open>header_only\<close>
  says that the header of a file can be read although its pixel data cannot), the
  resampling kernel (floating point, filter dependent), whether the memory for a resize
  runs out, the ICO encoder's own downscaling, the bytes an encoder that fails leaves in
  the file it had opened, and which destinations refuse a write. The resampling kernel
  works on Pillow's 32-bit pixel cells; the 8-bit modes use the first byte.
\<close>

record platform =
  decode :: "content \<Rightarrow> image option"
  header_only :: "content \<Rightarrow> bool"
  resample :: "mode \<Rightarrow> nat \<times> nat \<Rightarrow> nat \<times> nat \<Rightarrow> rgba list \<Rightarrow> rgba list"
  exhausted :: "mode \<Rightarrow> nat \<times> nat \<Rightarrow> nat \<times> nat \<Rightarrow> bool"
  thumbnail :: "image \<Rightarrow> nat \<times> nat \<Rightarrow> image"
  truncated :: "format \<Rightarrow> byte list"
  write_denied :: "string \<Rightarrow> bool"

fun cells :: "raster \<Rightarrow> rgba list" where
  "cells (Pix_L ls) = map (\<lambda>l. (l, 0, 0, 0)) ls"
| "cells (Pix_LA ps) = map (\<lambda>(l, a). (l, l, l, a)) ps"
| "cells (Pix_P ixs pal) = map (\<lambda>i. (i, 0, 0, 0)) ixs"
| "cells (Pix_RGB ps) = map (\<lambda>(r, g, b). (r, g, b, 255)) ps"
| "cells (Pix_RGBA ps) = ps"

fun of_cells :: "raster \<Rightarrow> rgba list \<Rightarrow> raster" where
  "of_cells (Pix_L ls) cs = Pix_L (map (\<lambda>(l, x, y, z). l) cs)"
| "of_cells (Pix_LA ps) cs = Pix_LA (map (\<lambda>(l, x, y, a). (l, a)) cs)"
| "of_cells (Pix_P ixs pal) cs = Pix_P (map (\<lambda>(i, x, y, z). i) cs) pal"
| "of_cells (Pix_RGB ps) cs = Pix_RGB (map (\<lambda>(r, g, b, x). (r, g, b)) cs)"
| "of_cells (Pix_RGBA ps) cs = Pix_RGBA cs"

subsection \<open>\<^verbatim>\<open>Image.open\<close>, \<^verbatim>\<open>Image.resize\<close>, \<^verbatim>\<open>Image.save\<close>\<close>

text \<open>
  \<^verbatim>\<open>Image.open\<close> is lazy: it reads the header, and the pixel data is read by the first
  operation that needs it (\<^verbatim>\<open>convert\<close>, \<^verbatim>\<open>paste\<close>, \<^verbatim>\<open>resize\<close>, \<^verbatim>\<open>copy\<close> and
  \<^verbatim>\<open>save\<close> all start with \<^verbatim>\<open>load\<close>). A file whose header is intact and whose pixel
  data is cut opens, and raises \<^verbatim>\<open>OSError\<close> at every such operation.
\<close>

datatype opened = Whole image | Cut

definition Image_open :: "platform \<Rightarrow> world \<Rightarrow> string \<Rightarrow> error + opened" where
  "Image_open env w path =
     (case files w path of
        None \<Rightarrow> Inl FileNotFoundError
      | Some c \<Rightarrow>
          (case decode env c of
             Some img \<Rightarrow> Inr (Whole img)
           | None \<Rightarrow> if header_only env c then Inr Cut else Inl UnidentifiedImageError))"

definition Image_load :: "opened \<Rightarrow> error + image" where
  "Image_load f = (case f of Whole img \<Rightarrow> Inr img | Cut \<Rightarrow> Inl OSError)"

definition resampled :: "platform \<Rightarrow> image \<Rightarrow> nat \<times> nat \<Rightarrow> image" where
  "resampled env img sz =
     \<lparr>im_size = sz,
      im_data = of_cells (im_data img)
        (resample env (im_mode img) (im_size img) sz (cells (im_data img)))\<rparr>"

text \<open>
  Resizing allocates the target image, and the allocation can fail. Memory is taken to
  suffice for a target of up to 256 by 256 pixels, the largest frame an ICO file holds
  and more than any size the scripts ask for; for a larger target the platform says
  whether it runs out.
\<close>

definition out_of_memory :: "platform \<Rightarrow> image \<Rightarrow> nat \<times> nat \<Rightarrow> bool" where
  "out_of_memory env img sz =
     ((256 < fst sz \<or> 256 < snd sz) \<and> exhausted env (im_mode img) (im_size img) sz)"

definition Image_resize :: "platform \<Rightarrow> image \<Rightarrow> nat \<times> nat \<Rightarrow> error + image" where
  \<comment> \<open>\<^verbatim>\<open>img.resize(size, Image.LANCZOS)\<close>: a copy when the size is the image's own;
      otherwise the sides are passed as C integers (\<^verbatim>\<open>OverflowError\<close> from
      \<open>2\<^sup>3\<^sup>1\<close> on), a side below 1 is refused
      (\<^verbatim>\<open>ValueError("height and width must be > 0")\<close>), the target is allocated
      (\<^verbatim>\<open>MemoryError\<close>), and the result is a resampled image of the same mode\<close>
  "Image_resize env img sz =
     (if im_size img = sz then Inr img
      else if 2 ^ 31 \<le> fst sz \<or> 2 ^ 31 \<le> snd sz then Inl OverflowError
      else if fst sz < 1 \<or> snd sz < 1 then Inl ValueError
      else if out_of_memory env img sz then Inl MemoryError
      else Inr (resampled env img sz))"

definition ico_frames :: "platform \<Rightarrow> image \<Rightarrow> (nat \<times> nat) list \<Rightarrow> image list" where
  \<comment> \<open>the ICO encoder: of the sizes asked for, sorted and without duplicates, it keeps
      those no larger than the image handed to it and no larger than 256; the frame of
      the image's own size is the image, a smaller one is a thumbnail of it\<close>
  "ico_frames env im sizes =
     map (\<lambda>sz. if im_size im = sz then im else thumbnail env im sz)
       (filter (\<lambda>sz. fst sz \<le> fst (im_size im) \<and> snd sz \<le> snd (im_size im)
                      \<and> fst sz \<le> 256 \<and> snd sz \<le> 256)
          (sort (remdups sizes)))"

definition encode :: "platform \<Rightarrow> image \<Rightarrow> format \<Rightarrow> (nat \<times> nat) list \<Rightarrow> error + content" where
  \<comment> \<open>the JPEG encoder refuses the modes with alpha or a palette; the ICO encoder
      refuses to write a file without a frame
      (\<^verbatim>\<open>ValueError("All sizes too large for image")\<close>)\<close>
  "encode env img fmt sizes =
     (case fmt of
        PNG \<Rightarrow> Inr (Encoded PNG [img])
      | JPEG \<Rightarrow>
          (if im_mode img = Mode_RGB \<or> im_mode img = Mode_L
           then Inr (Encoded JPEG [img]) else Inl OSError)
      | WEBP \<Rightarrow> Inr (Encoded WEBP [img])
      | ICO \<Rightarrow>
          (if ico_frames env img sizes = [] then Inl ValueError
           else Inr (Encoded ICO (ico_frames env img sizes))))"

text \<open>
  \<^verbatim>\<open>img.save(path, format=..., sizes=...)\<close> opens the destination for writing, which
  empties a file that exists, and then runs the encoder. A refused open leaves the
  destination as it was. When the encoder fails, a file that \<^verbatim>\<open>save\<close> created is
  removed again, and a file that existed before stays as the encoder left it. So a
  failed save returns the error and the world it leaves.
\<close>

definition Image_save ::
  "platform \<Rightarrow> image \<Rightarrow> string \<Rightarrow> format \<Rightarrow> (nat \<times> nat) list \<Rightarrow> world
     \<Rightarrow> (error \<times> world) + world" where
  "Image_save env img path fmt sizes w =
     (if write_denied env path then Inl (PermissionError, w)
      else case encode env img fmt sizes of
             Inl e \<Rightarrow>
               Inl (e, if exists w path
                       then w\<lparr>files := (files w)(path \<mapsto> Bytes (truncated env fmt))\<rparr>
                       else w)
           | Inr c \<Rightarrow> Inr (w\<lparr>files := (files w)(path \<mapsto> c)\<rparr>))"

section \<open>Python's string and path functions\<close>

text \<open>
  File names are ASCII strings without a directory separator, as \<^verbatim>\<open>os.listdir\<close>
  returns them. \<^verbatim>\<open>os.path.splitext\<close> cuts at the last dot unless only dots come
  before it.
\<close>

definition lower_char :: "char \<Rightarrow> char" where
  "lower_char c =
     (case map_of (zip ''ABCDEFGHIJKLMNOPQRSTUVWXYZ'' ''abcdefghijklmnopqrstuvwxyz'') c of
        Some d \<Rightarrow> d
      | None \<Rightarrow> c)"

definition lower :: "string \<Rightarrow> string" where
  "lower s = map lower_char s"

definition endswith :: "string \<Rightarrow> string \<Rightarrow> bool" where
  "endswith s suf = (length suf \<le> length s \<and> drop (length s - length suf) s = suf)"

definition rfind :: "string \<Rightarrow> char \<Rightarrow> nat option" where
  "rfind s c =
     (if c \<in> set s then Some (length s - Suc (length (takeWhile (\<lambda>x. x \<noteq> c) (rev s))))
      else None)"

definition splitext :: "string \<Rightarrow> string \<times> string" where
  "splitext p =
     (case rfind p CHR ''.'' of
        None \<Rightarrow> (p, [])
      | Some d \<Rightarrow>
          if filter (\<lambda>c. c \<noteq> CHR ''.'') (take d p) \<noteq> [] then (take d p, drop d p)
          else (p, []))"

definition is_webp :: "string \<Rightarrow> bool" where
  \<comment> \<open>\<^verbatim>\<open>f.lower().endswith('.webp')\<close>\<close>
  "is_webp f = endswith (lower f) ''.webp''"

text \<open>A \<^verbatim>\<open>try\<close> block runs its statements until the first one that raises.\<close>

definition bind_result :: "error + 'a \<Rightarrow> ('a \<Rightarrow> error + 'b) \<Rightarrow> error + 'b" where
  "bind_result m f = (case m of Inl e \<Rightarrow> Inl e | Inr x \<Rightarrow> f x)"

text \<open>
  A statement of a \<^verbatim>\<open>try\<close> block that raises before anything is written leaves the
  world of the block's start; the block ends with the save, which returns the world it
  leaves.
\<close>

definition bind_in ::
  "world \<Rightarrow> error + 'a \<Rightarrow> ('a \<Rightarrow> (error \<times> world) + world) \<Rightarrow> (error \<times> world) + world" where
  "bind_in w m f = (case m of Inl e \<Rightarrow> Inl (e, w) | Inr x \<Rightarrow> f x)"

definition first :: "'a list \<Rightarrow> error + 'a" where
  \<comment> \<open>\<^verbatim>\<open>xs[0]\<close>\<close>
  "first xs = (case xs of [] \<Rightarrow> Inl IndexError | x # _ \<Rightarrow> Inr x)"

fun resize_each :: "platform \<Rightarrow> image \<Rightarrow> nat list \<Rightarrow> error + image list" where
  \<comment> \<open>the loop that fills \<^verbatim>\<open>icon_list\<close> with one square resize for each side\<close>
  "resize_each env img [] = Inr []"
| "resize_each env img (s # ss) =
     bind_result (Image_resize env img (s, s)) (\<lambda>r.
     bind_result (resize_each env img ss) (\<lambda>rs. Inr (r # rs)))"

section \<open>The conservative script: \<^verbatim>\<open>public/ico4x4.py\<close>\<close>

definition flatten_image_to_white :: "image \<Rightarrow> error + image" where
  "flatten_image_to_white img =
     (if im_mode img = Mode_RGBA \<or> im_mode img = Mode_LA then
        (case Image_paste (Image_new_RGBA (im_size img) (255, 255, 255, 255)) img img of
           Inl e \<Rightarrow> Inl e
         | Inr background \<Rightarrow> Inr (convert_RGB background))
      else Inr (convert_RGB img))"

definition convert_webp_file :: "platform \<Rightarrow> string \<Rightarrow> world \<Rightarrow> world" where
  \<comment> \<open>the body of the loop of \<^verbatim>\<open>convert_all_webp_to_ico\<close>\<close>
  "convert_webp_file env file_name w =
     (let base_name = fst (splitext file_name);
          ico_path = base_name @ ''.ico''
      in if exists w ico_path then print (Skip_ico base_name file_name) w
         else (case bind_in w (Image_open env w file_name) (\<lambda>img.
                    bind_in w (Image_load img) (\<lambda>loaded.
                    bind_in w (flatten_image_to_white loaded) (\<lambda>img_rgb.
                    bind_in w (Image_resize env img_rgb (64, 64)) (\<lambda>img_64.
                    Image_save env img_64 ico_path ICO [(64, 64)] w)))) of
                 Inr w' \<Rightarrow> print (Generated_ico base_name file_name) w'
               | Inl (e, w') \<Rightarrow> print (Error_converting file_name e) w'))"

definition convert_all_webp_to_ico :: "platform \<Rightarrow> string list \<Rightarrow> world \<Rightarrow> world" where
  \<comment> \<open>\<open>listing\<close> is what \<^verbatim>\<open>os.listdir(SCRIPT_DIR)\<close> returns, in its order\<close>
  "convert_all_webp_to_ico env listing w =
     (let webp_files = filter is_webp listing
      in if webp_files = [] then print No_webp_files w
         else fold (convert_webp_file env) webp_files w)"

definition targets :: "(string \<times> nat \<times> nat) list" where
  "targets =
     [(''favicon-16x16.png'', 16, 16),
      (''favicon-32x32.png'', 32, 32),
      (''apple-touch-icon.png'', 180, 180)]"

definition generate_png :: "platform \<Rightarrow> image \<Rightarrow> string \<times> nat \<times> nat \<Rightarrow> world \<Rightarrow> world" where
  \<comment> \<open>the body of the loop over \<^verbatim>\<open>targets\<close> in \<^verbatim>\<open>generate_icons_from_logo\<close>\<close>
  "generate_png env img_rgb t w =
     (case t of (filename, wd, ht) \<Rightarrow>
        if exists w filename then print (Skip_exists filename) w
        else (case bind_in w (Image_resize env img_rgb (wd, ht)) (\<lambda>resized.
                   Image_save env resized filename PNG [] w) of
                Inr w' \<Rightarrow> print (Generated_sized filename wd ht) w'
              | Inl (e, w') \<Rightarrow> print (Error_generating filename e) w'))"

definition generate_ico :: "platform \<Rightarrow> image \<Rightarrow> world \<Rightarrow> world" where
  \<comment> \<open>the last block of \<^verbatim>\<open>generate_icons_from_logo\<close>: only \<^verbatim>\<open>icon_list[0]\<close>
      reaches the encoder\<close>
  "generate_ico env img_rgb w =
     (if exists w ''favicon.ico'' then print (Skip_exists ''favicon.ico'') w
      else (let icon_sizes = [16, 32, 48, 64]
            in case bind_in w (resize_each env img_rgb icon_sizes) (\<lambda>icon_list.
                    bind_in w (first icon_list) (\<lambda>icon0.
                    Image_save env icon0 ''favicon.ico'' ICO
                      (map (\<lambda>s. (s, s)) icon_sizes) w)) of
                 Inr w' \<Rightarrow> print (Generated_multi ''favicon.ico'') w'
               | Inl (e, w') \<Rightarrow> print (Error_generating ''favicon.ico'' e) w'))"

definition generate_icons_from_logo :: "platform \<Rightarrow> world \<Rightarrow> world" where
  "generate_icons_from_logo env w =
     (if \<not> exists w ''logo.png'' then print (Logo_not_found ''logo.png'') w
      else case bind_result (Image_open env w ''logo.png'') (\<lambda>img.
                  bind_result (Image_load img) flatten_image_to_white) of
             Inl e \<Rightarrow> print (Error_opening ''logo.png'' e) w
           | Inr img_rgb \<Rightarrow>
               generate_ico env img_rgb (fold (generate_png env img_rgb) targets w))"

section \<open>The replacing script: \<^verbatim>\<open>public/images/preview/ico4x4.py\<close>\<close>

abbreviation LOGO_FILENAME :: string where "LOGO_FILENAME \<equiv> ''logo.png''"
abbreviation WEBP_TO_ICO_SIZE :: nat where "WEBP_TO_ICO_SIZE \<equiv> 64"
abbreviation FAVICON_16 :: string where "FAVICON_16 \<equiv> ''favicon-16x16.png''"
abbreviation FAVICON_16_SIZE :: "nat \<times> nat" where "FAVICON_16_SIZE \<equiv> (16, 16)"
abbreviation FAVICON_32 :: string where "FAVICON_32 \<equiv> ''favicon-32x32.png''"
abbreviation FAVICON_32_SIZE :: "nat \<times> nat" where "FAVICON_32_SIZE \<equiv> (32, 32)"
abbreviation APPLE_TOUCH_ICON :: string where "APPLE_TOUCH_ICON \<equiv> ''apple-touch-icon.png''"
abbreviation APPLE_TOUCH_ICON_SIZE :: "nat \<times> nat" where "APPLE_TOUCH_ICON_SIZE \<equiv> (180, 180)"
abbreviation FAVICON_ICO :: string where "FAVICON_ICO \<equiv> ''favicon.ico''"
abbreviation FAVICON_ICO_SIZES :: "nat list" where "FAVICON_ICO_SIZES \<equiv> [16, 32, 48, 64]"
abbreviation PREVIEW_PNG :: string where "PREVIEW_PNG \<equiv> ''preview.png''"
abbreviation PREVIEW_JPG :: string where "PREVIEW_JPG \<equiv> ''preview.jpg''"
abbreviation PREVIEW_WEBP :: string where "PREVIEW_WEBP \<equiv> ''preview.webp''"

text \<open>
  \<^verbatim>\<open>ImageIOManager\<close>. The test \<^verbatim>\<open>not img\<close> of \<^verbatim>\<open>save_image\<close> is false for every
  Pillow image and has no branch here. Every \<^verbatim>\<open>try\<close> block of this script that works
  on the opened file reads its pixel data (\<open>Image_load\<close>) before it opens a destination:
  in \<^verbatim>\<open>convert\<close>, in \<^verbatim>\<open>resize\<close>, or at the start of \<^verbatim>\<open>save\<close>.
\<close>

definition load_image :: "platform \<Rightarrow> world \<Rightarrow> string \<Rightarrow> error + opened" where
  "load_image env w path =
     (if path = [] \<or> \<not> exists w path then Inl FileNotFoundError
      else Image_open env w path)"

definition save_image ::
  "platform \<Rightarrow> image \<Rightarrow> string \<Rightarrow> format \<Rightarrow> (nat \<times> nat) list \<Rightarrow> world
     \<Rightarrow> (error \<times> world) + world" where
  "save_image env img path img_format sizes w =
     (if path = [] then Inl (ValueError, w)
      else Image_save env img path img_format sizes w)"

text \<open>\<^verbatim>\<open>ImageModeConverter\<close> and \<^verbatim>\<open>ImageResizer\<close>.\<close>

definition ensure_rgba :: "image \<Rightarrow> image" where
  "ensure_rgba img = (if im_mode img \<noteq> Mode_RGBA then convert_RGBA img else img)"

definition ensure_rgb :: "image \<Rightarrow> image" where
  "ensure_rgb img = (if im_mode img \<noteq> Mode_RGB then convert_RGB img else img)"

definition resize :: "platform \<Rightarrow> image \<Rightarrow> nat \<times> nat \<Rightarrow> error + image" where
  "resize env img sz = Image_resize env img sz"



text \<open>
  \<^verbatim>\<open>asyncio.gather\<close> over coroutines that never wait on anything pending runs them
  one after the other, in the order of the list.
\<close>

definition gather :: "(world \<Rightarrow> world) list \<Rightarrow> world \<Rightarrow> world" where
  "gather tasks w = fold (\<lambda>task. task) tasks w"

text \<open>\<^verbatim>\<open>WebpToIcoConverter\<close>, with its field \<^verbatim>\<open>ico_size\<close> as an argument.\<close>

definition convert_single_webp :: "platform \<Rightarrow> nat \<Rightarrow> string \<Rightarrow> world \<Rightarrow> world" where
  "convert_single_webp env ico_size file_name w =
     (let base_name = fst (splitext file_name);
          ico_path = base_name @ ''.ico''
      in case bind_in w (load_image env w file_name) (\<lambda>img.
              bind_in w (Image_load img) (\<lambda>loaded.
              bind_in w (resize env (ensure_rgba loaded) (ico_size, ico_size)) (\<lambda>resized.
              save_image env resized ico_path ICO [(ico_size, ico_size)] w))) of
           Inr w' \<Rightarrow> print (Replaced_if_existed (base_name @ ''.ico'')) w'
         | Inl (e, w') \<Rightarrow> print (Error_converting file_name e) w')"

definition WebpToIcoConverter_convert_all_webp_to_ico ::
  "platform \<Rightarrow> nat \<Rightarrow> string list \<Rightarrow> world \<Rightarrow> world" where
  "WebpToIcoConverter_convert_all_webp_to_ico env ico_size listing w =
     (let webp_files = filter is_webp listing
      in if webp_files = [] then print No_webp_files w
         else gather (map (convert_single_webp env ico_size) webp_files) w)"

text \<open>\<^verbatim>\<open>LogoAssetsGenerator\<close>.\<close>

definition icon_targets :: "(string \<times> nat \<times> nat) list" where
  "icon_targets =
     [(FAVICON_16, FAVICON_16_SIZE), (FAVICON_32, FAVICON_32_SIZE),
      (APPLE_TOUCH_ICON, APPLE_TOUCH_ICON_SIZE)]"

definition generate_png_icon :: "platform \<Rightarrow> opened \<Rightarrow> string \<times> nat \<times> nat \<Rightarrow> world \<Rightarrow> world" where
  \<comment> \<open>the body of the loop of \<^verbatim>\<open>_generate_png_icons\<close>\<close>
  "generate_png_icon env base_img t w =
     (case t of (filename, wd, ht) \<Rightarrow>
        (case bind_in w (Image_load base_img) (\<lambda>loaded.
              bind_in w (resize env (ensure_rgba loaded) (wd, ht)) (\<lambda>resized.
              save_image env resized filename PNG [] w)) of
           Inr w' \<Rightarrow> print (Replaced_sized filename wd ht) w'
         | Inl (e, w') \<Rightarrow> print (Error_generating filename e) w'))"

definition generate_png_icons :: "platform \<Rightarrow> opened \<Rightarrow> world \<Rightarrow> world" where
  "generate_png_icons env base_img w = fold (generate_png_icon env base_img) icon_targets w"

definition generate_favicon_ico :: "platform \<Rightarrow> opened \<Rightarrow> world \<Rightarrow> world" where
  "generate_favicon_ico env base_img w =
     (case bind_in w (Image_load base_img) (\<lambda>loaded.
           bind_in w (resize_each env (ensure_rgba loaded) FAVICON_ICO_SIZES) (\<lambda>icon_list.
           bind_in w (first icon_list) (\<lambda>icon0.
           save_image env icon0 FAVICON_ICO ICO (map (\<lambda>s. (s, s)) FAVICON_ICO_SIZES) w))) of
        Inr w' \<Rightarrow> print (Replaced_if_existed FAVICON_ICO) w'
      | Inl (e, w') \<Rightarrow> print (Error_generating FAVICON_ICO e) w')"

definition generate_preview_png :: "platform \<Rightarrow> opened \<Rightarrow> world \<Rightarrow> world" where
  "generate_preview_png env base_img w =
     (case bind_in w (Image_load base_img) (\<lambda>loaded.
           save_image env (ensure_rgba loaded) PREVIEW_PNG PNG [] w) of
        Inr w' \<Rightarrow> print (Replaced PREVIEW_PNG) w'
      | Inl (e, w') \<Rightarrow> print (Error_generating PREVIEW_PNG e) w')"

definition generate_preview_jpg :: "platform \<Rightarrow> opened \<Rightarrow> world \<Rightarrow> world" where
  "generate_preview_jpg env base_img w =
     (case bind_in w (Image_load base_img) (\<lambda>loaded.
           save_image env (ensure_rgb loaded) PREVIEW_JPG JPEG [] w) of
        Inr w' \<Rightarrow> print (Replaced PREVIEW_JPG) w'
      | Inl (e, w') \<Rightarrow> print (Error_generating PREVIEW_JPG e) w')"

definition generate_preview_webp :: "platform \<Rightarrow> opened \<Rightarrow> world \<Rightarrow> world" where
  "generate_preview_webp env base_img w =
     (case bind_in w (Image_load base_img) (\<lambda>loaded.
           save_image env (ensure_rgba loaded) PREVIEW_WEBP WEBP [] w) of
        Inr w' \<Rightarrow> print (Replaced PREVIEW_WEBP) w'
      | Inl (e, w') \<Rightarrow> print (Error_generating PREVIEW_WEBP e) w')"

definition generate_preview_images :: "platform \<Rightarrow> opened \<Rightarrow> world \<Rightarrow> world" where
  "generate_preview_images env base_img w =
     generate_preview_webp env base_img
       (generate_preview_jpg env base_img (generate_preview_png env base_img w))"

definition generate_all_assets :: "platform \<Rightarrow> world \<Rightarrow> world" where
  "generate_all_assets env w =
     (if \<not> exists w LOGO_FILENAME then print (Logo_not_found LOGO_FILENAME) w
      else case load_image env w LOGO_FILENAME of
             Inl e \<Rightarrow> print (Error_opening LOGO_FILENAME e) w
           | Inr img \<Rightarrow>
               gather [generate_png_icons env img, generate_favicon_ico env img,
                       generate_preview_images env img] w)"

section \<open>A platform to run the scripts on\<close>

text \<open>
  A concrete platform, for running the model on concrete directories: a file written by
  an encoder decodes to its first frame, the resampler fills the target with the first
  source cell, memory never runs out, a thumbnail only changes the size, a failed
  encoder leaves an empty file, and no write is refused.
\<close>

definition flat_platform :: platform where
  "flat_platform =
     \<lparr>decode = (\<lambda>c. case c of Encoded f (i # rest) \<Rightarrow> Some i | _ \<Rightarrow> None),
      header_only = (\<lambda>c. False),
      resample = (\<lambda>m src dst cs.
         if cs = [] then [] else replicate (fst dst * snd dst) (hd cs)),
      exhausted = (\<lambda>m src dst. False),
      thumbnail = (\<lambda>im sz. im\<lparr>im_size := sz\<rparr>),
      truncated = (\<lambda>f. []),
      write_denied = (\<lambda>p. False)\<rparr>"

section \<open>What a run leaves behind\<close>

text \<open>
  The descriptions the scripts are compared with. \<open>resized\<close> is the image a resize to
  an accepted size returns. \<open>put_asset\<close> is the outcome of one asset of the replacing
  script: the destination is replaced and the success message printed, or the refusal is
  printed and the destination left alone. \<open>logo_assets\<close> lists, for a decoded logo, the
  seven destinations of Mode B with what each is to hold and the message that reports it.
\<close>

definition resized :: "platform \<Rightarrow> image \<Rightarrow> nat \<times> nat \<Rightarrow> image" where
  "resized env img sz = (if im_size img = sz then img else resampled env img sz)"

definition put_asset :: "platform \<Rightarrow> string \<times> content \<times> message \<Rightarrow> world \<Rightarrow> world" where
  "put_asset env a w =
     (case a of (name, c, ok) \<Rightarrow>
        if write_denied env name then print (Error_generating name PermissionError) w
        else print ok (w\<lparr>files := (files w)(name \<mapsto> c)\<rparr>))"

definition logo_assets :: "platform \<Rightarrow> image \<Rightarrow> (string \<times> content \<times> message) list" where
  "logo_assets env img =
     [(FAVICON_16, Encoded PNG [resized env (ensure_rgba img) (16, 16)],
         Replaced_sized FAVICON_16 16 16),
      (FAVICON_32, Encoded PNG [resized env (ensure_rgba img) (32, 32)],
         Replaced_sized FAVICON_32 32 32),
      (APPLE_TOUCH_ICON, Encoded PNG [resized env (ensure_rgba img) (180, 180)],
         Replaced_sized APPLE_TOUCH_ICON 180 180),
      (FAVICON_ICO, Encoded ICO [resized env (ensure_rgba img) (16, 16)],
         Replaced_if_existed FAVICON_ICO),
      (PREVIEW_PNG, Encoded PNG [ensure_rgba img], Replaced PREVIEW_PNG),
      (PREVIEW_JPG, Encoded JPEG [ensure_rgb img], Replaced PREVIEW_JPG),
      (PREVIEW_WEBP, Encoded WEBP [ensure_rgba img], Replaced PREVIEW_WEBP)]"

text \<open>
  The conservative script leaves a destination that exists alone and says so;
  \<open>logo_icons\<close> lists its four destinations for the flattened logo.
\<close>

definition keep_or_put :: "platform \<Rightarrow> string \<times> content \<times> message \<Rightarrow> world \<Rightarrow> world" where
  "keep_or_put env a w =
     (if exists w (fst a) then print (Skip_exists (fst a)) w else put_asset env a w)"

definition logo_icons :: "platform \<Rightarrow> image \<Rightarrow> (string \<times> content \<times> message) list" where
  "logo_icons env img_rgb =
     [(''favicon-16x16.png'', Encoded PNG [resized env img_rgb (16, 16)],
         Generated_sized ''favicon-16x16.png'' 16 16),
      (''favicon-32x32.png'', Encoded PNG [resized env img_rgb (32, 32)],
         Generated_sized ''favicon-32x32.png'' 32 32),
      (''apple-touch-icon.png'', Encoded PNG [resized env img_rgb (180, 180)],
         Generated_sized ''apple-touch-icon.png'' 180 180),
      (''favicon.ico'', Encoded ICO [resized env img_rgb (16, 16)],
         Generated_multi ''favicon.ico'')]"

text \<open>
  The seven per-asset operations of \<^verbatim>\<open>LogoAssetsGenerator\<close> on a logo whose pixel
  data is \<open>img\<close>, in the order the script runs them.
\<close>

definition asset_tasks :: "platform \<Rightarrow> image \<Rightarrow> (world \<Rightarrow> world) list" where
  "asset_tasks env img =
     map (generate_png_icon env (Whole img)) icon_targets
     @ [generate_favicon_ico env (Whole img), generate_preview_png env (Whole img),
        generate_preview_jpg env (Whole img), generate_preview_webp env (Whole img)]"

text \<open>
  Compositing onto white in the spec's words: each colour byte \<open>c\<close> of a pixel with
  alpha \<open>a\<close> becomes \<open>(c * a + 255 * (255 - a)) / 255\<close>, rounded to the nearest
  integer, and the alpha byte is dropped.
\<close>

definition over_white :: "byte \<Rightarrow> byte \<Rightarrow> byte" where
  "over_white c a = of_nat ((2 * (unat c * unat a + 255 * (255 - unat a)) + 255) div 510)"

definition composite_onto_white :: "image \<Rightarrow> image" where
  "composite_onto_white img =
     img\<lparr>im_data := Pix_RGB (map (\<lambda>(r, g, b, a). (over_white r a, over_white g a, over_white b a))
                              (to_rgba (im_data img)))\<rparr>"

text \<open>
  What the replacing bulk conversion has to put at the destination of one source file,
  or the error it meets together with the bytes a failed encoder leaves in a destination
  that exists, and what that does to the files and to the messages counted without
  their order.
\<close>

definition ico_outcome ::
  "platform \<Rightarrow> nat \<Rightarrow> world \<Rightarrow> string \<Rightarrow> (error \<times> byte list option) + content" where
  "ico_outcome env ico_size w file_name =
     (case bind_result (load_image env w file_name) (\<lambda>img.
           bind_result (Image_load img) (\<lambda>loaded.
           resize env (ensure_rgba loaded) (ico_size, ico_size))) of
        Inl e \<Rightarrow> Inl (e, None)
      | Inr scaled \<Rightarrow>
          if write_denied env (fst (splitext file_name) @ ''.ico'') then Inl (PermissionError, None)
          else (case encode env scaled ICO [(ico_size, ico_size)] of
                  Inl e \<Rightarrow> Inl (e, Some (truncated env ICO))
                | Inr c \<Rightarrow> Inr c))"

definition ico_effect ::
  "string \<Rightarrow> (error \<times> byte list option) + content \<Rightarrow> (string \<rightharpoonup> content) \<times> message multiset
     \<Rightarrow> (string \<rightharpoonup> content) \<times> message multiset" where
  "ico_effect file_name r s =
     (case r of
        Inr c \<Rightarrow> ((fst s)(fst (splitext file_name) @ ''.ico'' \<mapsto> c),
                  add_mset (Replaced_if_existed (fst (splitext file_name) @ ''.ico'')) (snd s))
      | Inl (e, left) \<Rightarrow>
          ((case left of
              None \<Rightarrow> fst s
            | Some bs \<Rightarrow>
                if fst s (fst (splitext file_name) @ ''.ico'') = None then fst s
                else (fst s)(fst (splitext file_name) @ ''.ico'' \<mapsto> Bytes bs)),
           add_mset (Error_converting file_name e) (snd s)))"

definition observed :: "world \<Rightarrow> (string \<rightharpoonup> content) \<times> message multiset" where
  "observed w = (files w, mset (out w))"

text \<open>The message one asset of the replacing script leaves on the console.\<close>

definition report :: "platform \<Rightarrow> string \<times> content \<times> message \<Rightarrow> message" where
  "report env a =
     (case a of (name, c, ok) \<Rightarrow>
        if write_denied env name then Error_generating name PermissionError else ok)"

text \<open>Concrete logos and a directory that holds only the logo.\<close>

definition square_logo :: image where
  "square_logo = \<lparr>im_size = (64, 64), im_data = Pix_RGB (replicate 4096 (200, 30, 30))\<rparr>"

definition glass_logo :: image where
  "glass_logo = \<lparr>im_size = (1, 1), im_data = Pix_RGBA [(200, 30, 30, 128)]\<rparr>"

definition clear_logo :: image where
  "clear_logo = \<lparr>im_size = (1, 1), im_data = Pix_RGBA [(0, 0, 0, 0)]\<rparr>"


definition logo_dir :: "image \<Rightarrow> world" where
  "logo_dir img = \<lparr>files = [''logo.png'' \<mapsto> Encoded PNG [img]], out = []\<rparr>"

text \<open>The directory of the skip scenario: two sources, one of them already converted.\<close>

definition scenario_dir :: world where
  "scenario_dir =
     \<lparr>files = [''a.webp'' \<mapsto> Encoded WEBP [glass_logo],
               ''b.webp'' \<mapsto> Encoded WEBP [glass_logo],
               ''a.ico'' \<mapsto> Bytes [1, 2, 3]],
      out = []\<rparr>"

text \<open>A directory with two sources that differ only in the case of the extension.\<close>

definition twin_dir :: world where
  "twin_dir =
     \<lparr>files = [''a.webp'' \<mapsto> Encoded WEBP [glass_logo],
               ''a.WEBP'' \<mapsto> Encoded WEBP [clear_logo]],
      out = []\<rparr>"

definition logo_dir_with :: "image \<Rightarrow> string \<Rightarrow> content \<Rightarrow> world" where
  "logo_dir_with img name c =
     \<lparr>files = [''logo.png'' \<mapsto> Encoded PNG [img], name \<mapsto> c], out = []\<rparr>"

section \<open>Properties\<close>

subsection \<open>Mode conversion\<close>

lemma im_mode_convert_RGB: "im_mode (convert_RGB img) = Mode_RGB"
  by (simp add: im_mode_def convert_RGB_def)

lemma im_mode_convert_RGBA: "im_mode (convert_RGBA img) = Mode_RGBA"
  by (simp add: im_mode_def convert_RGBA_def)

lemma convert_RGB_same: "im_mode img = Mode_RGB \<Longrightarrow> convert_RGB img = img"
  by (cases "im_data img") (simp_all add: im_mode_def convert_RGB_def)

lemma convert_RGBA_same: "im_mode img = Mode_RGBA \<Longrightarrow> convert_RGBA img = img"
  by (cases "im_data img") (simp_all add: im_mode_def convert_RGBA_def)

lemma flatten_returns:
  "\<exists>r. flatten_image_to_white img = Inr r \<and> im_mode r = Mode_RGB \<and> im_size r = im_size img"
  by (cases "im_data img")
     (simp_all add: flatten_image_to_white_def im_mode_def Image_paste_def Image_new_RGBA_def
        convert_RGB_def)

lemma flatten_fixed: "im_mode r = Mode_RGB \<Longrightarrow> flatten_image_to_white r = Inr r"
  by (simp add: flatten_image_to_white_def convert_RGB_same)

text \<open>
  C10. Each mode normaliser is idempotent: \<open>ensure_rgba\<close> and \<open>ensure_rgb\<close> applied twice
  give the image they give applied once, and \<open>flatten_image_to_white\<close> returns an image
  that it returns unchanged (same mode, size and pixels) when applied again.
\<close>

theorem normalisers_idempotent:
  "ensure_rgba (ensure_rgba img) = ensure_rgba img
   \<and> ensure_rgb (ensure_rgb img) = ensure_rgb img
   \<and> (\<exists>r. flatten_image_to_white img = Inr r \<and> flatten_image_to_white r = Inr r)"
proof -
  have a: "ensure_rgba (ensure_rgba img) = ensure_rgba img"
    by (simp add: ensure_rgba_def im_mode_convert_RGBA)
  have b: "ensure_rgb (ensure_rgb img) = ensure_rgb img"
    by (simp add: ensure_rgb_def im_mode_convert_RGB)
  obtain r where r: "flatten_image_to_white img = Inr r" "im_mode r = Mode_RGB"
    using flatten_returns by blast
  from r(2) have "flatten_image_to_white r = Inr r" by (rule flatten_fixed)
  with a b r(1) show ?thesis by blast
qed

theorem normalisers_idempotent_witness:
  "flatten_image_to_white \<lparr>im_size = (1, 1), im_data = Pix_LA [(10, 128)]\<rparr>
     = Inr \<lparr>im_size = (1, 1), im_data = Pix_RGB [(132, 132, 132)]\<rparr>
   \<and> flatten_image_to_white \<lparr>im_size = (1, 1), im_data = Pix_RGB [(132, 132, 132)]\<rparr>
     = Inr \<lparr>im_size = (1, 1), im_data = Pix_RGB [(132, 132, 132)]\<rparr>
   \<and> ensure_rgba (ensure_rgba \<lparr>im_size = (1, 1), im_data = Pix_LA [(10, 128)]\<rparr>)
     = \<lparr>im_size = (1, 1), im_data = Pix_RGBA [(10, 10, 10, 128)]\<rparr>
   \<and> ensure_rgb (ensure_rgb \<lparr>im_size = (1, 1), im_data = Pix_LA [(10, 128)]\<rparr>)
     = \<lparr>im_size = (1, 1), im_data = Pix_RGB [(10, 10, 10)]\<rparr>"
proof -
  let ?img = "\<lparr>im_size = (1, 1), im_data = Pix_LA [(10, 128)]\<rparr>"
  have f: "flatten_image_to_white ?img
      = Inr \<lparr>im_size = (1, 1), im_data = Pix_RGB [(132, 132, 132)]\<rparr>"
    by (simp add: flatten_image_to_white_def im_mode_def Image_paste_def Image_new_RGBA_def
        convert_RGB_def blend8_def div255_def)
  have a: "ensure_rgba ?img = \<lparr>im_size = (1, 1), im_data = Pix_RGBA [(10, 10, 10, 128)]\<rparr>"
    by (simp add: ensure_rgba_def im_mode_def convert_RGBA_def)
  have b: "ensure_rgb ?img = \<lparr>im_size = (1, 1), im_data = Pix_RGB [(10, 10, 10)]\<rparr>"
    by (simp add: ensure_rgb_def im_mode_def convert_RGB_def)
  from normalisers_idempotent [of ?img] f a b show ?thesis by auto
qed

subsection \<open>A missing logo\<close>

text \<open>
  C6. When \<^verbatim>\<open>logo.png\<close> does not exist, Mode B of either script prints the
  not-found message and nothing else, writes no file, and returns normally.
\<close>

theorem missing_logo_is_reported:
  assumes "files w ''logo.png'' = None"
  shows "files (generate_all_assets env w) = files w
    \<and> out (generate_all_assets env w) = out w @ [Logo_not_found ''logo.png'']
    \<and> files (generate_icons_from_logo env w) = files w
    \<and> out (generate_icons_from_logo env w) = out w @ [Logo_not_found ''logo.png'']"
  using assms
  by (simp add: generate_all_assets_def generate_icons_from_logo_def exists_def print_def)

theorem missing_logo_is_reported_witness:
  "files \<lparr>files = Map.empty, out = []\<rparr> ''logo.png'' = None
   \<and> files (generate_all_assets flat_platform \<lparr>files = Map.empty, out = []\<rparr>) = Map.empty
   \<and> out (generate_all_assets flat_platform \<lparr>files = Map.empty, out = []\<rparr>)
       = [Logo_not_found ''logo.png'']
   \<and> files (generate_icons_from_logo flat_platform \<lparr>files = Map.empty, out = []\<rparr>) = Map.empty
   \<and> out (generate_icons_from_logo flat_platform \<lparr>files = Map.empty, out = []\<rparr>)
       = [Logo_not_found ''logo.png'']"
  using missing_logo_is_reported [of "\<lparr>files = Map.empty, out = []\<rparr>" flat_platform]
  by simp

subsection \<open>Resizing and encoding\<close>

lemma Image_resize_ok:
  "0 < fst sz \<Longrightarrow> 0 < snd sz \<Longrightarrow> fst sz \<le> 256 \<Longrightarrow> snd sz \<le> 256 \<Longrightarrow>
   Image_resize env img sz = Inr (resized env img sz)"
  by (simp add: Image_resize_def resized_def out_of_memory_def)

lemma im_size_resized: "im_size (resized env img sz) = sz"
  by (simp add: resized_def resampled_def)

lemma raster_mode_of_cells: "raster_mode (of_cells d cs) = raster_mode d"
  by (cases d) simp_all

lemma im_mode_resized: "im_mode (resized env img sz) = im_mode img"
  by (simp add: resized_def resampled_def im_mode_def raster_mode_of_cells)

lemma ico_frames_16:
  "im_size im = (16, 16) \<Longrightarrow>
   ico_frames env im [(16, 16), (32, 32), (48, 48), (64, 64)] = [im]"
  by (simp add: ico_frames_def)

lemma ico_frames_single:
  "im_size im = (n, n) \<Longrightarrow> n \<le> 256 \<Longrightarrow> ico_frames env im [(n, n)] = [im]"
  by (simp add: ico_frames_def)

subsection \<open>One asset at a time\<close>

lemma save_step:
  assumes "name \<noteq> []" "encode env im fmt sizes = Inr c"
  shows "(case save_image env im name fmt sizes w of
            Inr w' \<Rightarrow> print ok w' | Inl (e, w') \<Rightarrow> print (Error_generating name e) w')
         = put_asset env (name, c, ok) w"
  using assms by (simp add: save_image_def Image_save_def put_asset_def)

lemma Image_save_step:
  assumes "encode env im fmt sizes = Inr c"
  shows "(case Image_save env im name fmt sizes w of
            Inr w' \<Rightarrow> print ok w' | Inl (e, w') \<Rightarrow> print (Error_generating name e) w')
         = put_asset env (name, c, ok) w"
  using assms by (simp add: Image_save_def put_asset_def)

lemma encode_ico_16:
  "im_size im = (16, 16) \<Longrightarrow>
   encode env im ICO [(16, 16), (32, 32), (48, 48), (64, 64)] = Inr (Encoded ICO [im])"
  by (simp add: encode_def ico_frames_16)

lemma generate_png_icon_eq:
  assumes "name \<noteq> []" "0 < wd" "0 < ht" "wd \<le> 256" "ht \<le> 256"
  shows "generate_png_icon env (Whole img) (name, wd, ht) w
     = put_asset env (name, Encoded PNG [resized env (ensure_rgba img) (wd, ht)],
         Replaced_sized name wd ht) w"
  using assms
  by (simp add: generate_png_icon_def Image_load_def resize_def Image_resize_ok bind_in_def
      save_step encode_def)

lemma generate_png_icons_eq:
  "generate_png_icons env (Whole img) w
     = fold (put_asset env) (take 3 (logo_assets env img)) w"
  by (simp add: generate_png_icons_def icon_targets_def generate_png_icon_eq logo_assets_def)

lemma generate_favicon_ico_eq:
  "generate_favicon_ico env (Whole img) w = put_asset env (logo_assets env img ! 3) w"
  by (simp add: generate_favicon_ico_def Image_load_def Image_resize_ok bind_in_def
      bind_result_def first_def save_step encode_ico_16 im_size_resized logo_assets_def)

lemma generate_preview_png_eq:
  "generate_preview_png env (Whole img) w = put_asset env (logo_assets env img ! 4) w"
  by (simp add: generate_preview_png_def Image_load_def bind_in_def save_step encode_def
      logo_assets_def)

lemma generate_preview_jpg_eq:
  "generate_preview_jpg env (Whole img) w = put_asset env (logo_assets env img ! 5) w"
  by (simp add: generate_preview_jpg_def Image_load_def bind_in_def save_step encode_def
      logo_assets_def ensure_rgb_def im_mode_convert_RGB)

lemma generate_preview_webp_eq:
  "generate_preview_webp env (Whole img) w = put_asset env (logo_assets env img ! 6) w"
  by (simp add: generate_preview_webp_def Image_load_def bind_in_def save_step encode_def
      logo_assets_def)

lemma generate_preview_images_eq:
  "generate_preview_images env (Whole img) w
     = fold (put_asset env) (drop 4 (logo_assets env img)) w"
  by (simp add: generate_preview_images_def generate_preview_png_eq generate_preview_jpg_eq
      generate_preview_webp_eq)
     (simp add: logo_assets_def)

lemma generate_all_assets_eq:
  assumes "files w LOGO_FILENAME = Some c0" "decode env c0 = Some img"
  shows "generate_all_assets env w = fold (put_asset env) (logo_assets env img) w"
proof -
  have "load_image env w LOGO_FILENAME = Inr (Whole img)"
    using assms by (simp add: load_image_def exists_def Image_open_def)
  moreover have "logo_assets env img
      = take 3 (logo_assets env img) @ [logo_assets env img ! 3] @ drop 4 (logo_assets env img)"
    by (simp add: logo_assets_def)
  ultimately show ?thesis
    using assms(1)
    by (simp add: generate_all_assets_def exists_def gather_def generate_png_icons_eq
        generate_favicon_ico_eq generate_preview_images_eq del: fold_simps)
       (metis fold_append comp_apply fold_simps)
qed

lemma generate_png_eq:
  assumes "0 < wd" "0 < ht" "wd \<le> 256" "ht \<le> 256"
  shows "generate_png env img_rgb (name, wd, ht) w
     = keep_or_put env (name, Encoded PNG [resized env img_rgb (wd, ht)],
         Generated_sized name wd ht) w"
  using assms
  by (simp add: generate_png_def keep_or_put_def Image_resize_ok bind_in_def
      Image_save_step encode_def)

lemma generate_ico_eq:
  "generate_ico env img_rgb w = keep_or_put env (logo_icons env img_rgb ! 3) w"
  by (simp add: generate_ico_def keep_or_put_def Image_resize_ok bind_in_def bind_result_def
      first_def Image_save_step encode_ico_16 im_size_resized logo_icons_def)

lemma generate_icons_from_logo_eq:
  assumes "files w ''logo.png'' = Some c0" "decode env c0 = Some img"
    "flatten_image_to_white img = Inr img_rgb"
  shows "generate_icons_from_logo env w = fold (keep_or_put env) (logo_icons env img_rgb) w"
proof -
  have "bind_result (Image_open env w ''logo.png'') (\<lambda>img.
          bind_result (Image_load img) flatten_image_to_white) = Inr img_rgb"
    using assms by (simp add: Image_open_def Image_load_def bind_result_def)
  moreover have "fold (generate_png env img_rgb) targets w
      = fold (keep_or_put env) (take 3 (logo_icons env img_rgb)) w"
    by (simp add: targets_def generate_png_eq logo_icons_def)
  moreover have "logo_icons env img_rgb
      = take 3 (logo_icons env img_rgb) @ [logo_icons env img_rgb ! 3]"
    by (simp add: logo_icons_def)
  ultimately show ?thesis
    using assms(1)
    by (simp add: generate_icons_from_logo_def exists_def generate_ico_eq del: fold_simps)
       (metis fold_append comp_apply fold_simps)
qed

lemma files_put_asset:
  "files (put_asset env (n, c, ok) w)
     = (if write_denied env n then files w else (files w)(n \<mapsto> c))"
  by (simp add: put_asset_def print_def)

lemma out_put_asset: "out (put_asset env a w) = out w @ [report env a]"
  by (cases a) (simp add: put_asset_def print_def report_def)

lemma files_fold_put_other:
  "n \<notin> fst ` set as \<Longrightarrow> files (fold (put_asset env) as w) n = files w n"
  by (induction as arbitrary: w) (auto simp: files_put_asset)

lemma files_fold_put:
  "distinct (map fst as) \<Longrightarrow> (n, c, ok) \<in> set as \<Longrightarrow>
   files (fold (put_asset env) as w) n = (if write_denied env n then files w n else Some c)"
proof (induction as arbitrary: w)
  case Nil
  then show ?case by simp
next
  case (Cons a as)
  obtain n' c' ok' where a: "a = (n', c', ok')" by (cases a)
  show ?case
  proof (cases "(n, c, ok) = a")
    case True
    with Cons.prems a have "n \<notin> fst ` set as" by auto
    with True a show ?thesis by (simp add: files_fold_put_other files_put_asset)
  next
    case False
    with Cons.prems a have in_as: "(n, c, ok) \<in> set as" and ne: "n \<noteq> n'"
      by (auto simp: image_iff)
    from Cons.prems have "distinct (map fst as)" by simp
    from Cons.IH [OF this in_as] ne a show ?thesis by (simp add: files_put_asset)
  qed
qed

lemma out_fold_put: "out (fold (put_asset env) as w) = out w @ map (report env) as"
  by (induction as arbitrary: w) (auto simp: out_put_asset)

lemma distinct_logo_assets: "distinct (map fst (logo_assets env img))"
  by (simp add: logo_assets_def)

lemma distinct_logo_icons: "distinct (map fst (logo_icons env img_rgb))"
  by (simp add: logo_icons_def)

subsection \<open>Destinations the conservative script keeps\<close>

lemma files_keep_or_put_old:
  "files w n = Some old \<Longrightarrow> files (keep_or_put env a w) n = Some old"
  by (cases a) (auto simp: keep_or_put_def exists_def print_def files_put_asset)

lemma files_fold_keep_old:
  "files w n = Some old \<Longrightarrow> files (fold (keep_or_put env) as w) n = Some old"
  by (induction as arbitrary: w) (simp_all add: files_keep_or_put_old)

lemma out_keep_or_put_mono: "set (out w) \<subseteq> set (out (keep_or_put env a w))"
  by (cases a) (auto simp: keep_or_put_def print_def put_asset_def)

lemma out_fold_keep_mono: "set (out w) \<subseteq> set (out (fold (keep_or_put env) as w))"
proof (induction as arbitrary: w)
  case Nil
  show ?case by simp
next
  case (Cons a as)
  from out_keep_or_put_mono [of w env a] Cons.IH [of "keep_or_put env a w"]
  show ?case by auto
qed

lemma skip_fold_keep:
  "a \<in> set as \<Longrightarrow> files w (fst a) = Some old \<Longrightarrow>
   Skip_exists (fst a) \<in> set (out (fold (keep_or_put env) as w))"
proof (induction as arbitrary: w)
  case Nil
  then show ?case by simp
next
  case (Cons b as)
  show ?case
  proof (cases "a = b")
    case True
    with Cons.prems have "Skip_exists (fst a) \<in> set (out (keep_or_put env b w))"
      by (simp add: keep_or_put_def exists_def print_def)
    with out_fold_keep_mono [of "keep_or_put env b w" env as] show ?thesis by auto
  next
    case False
    with Cons.prems have "a \<in> set as" by simp
    moreover from Cons.prems have "files (keep_or_put env b w) (fst a) = Some old"
      by (simp add: files_keep_or_put_old)
    ultimately show ?thesis using Cons.IH by simp
  qed
qed

lemma files_keep_or_put_other:
  "n \<noteq> fst a \<Longrightarrow> files (keep_or_put env a w) n = files w n"
  by (cases a) (auto simp: keep_or_put_def print_def files_put_asset)

lemma files_fold_keep_other:
  "n \<notin> fst ` set as \<Longrightarrow> files (fold (keep_or_put env) as w) n = files w n"
  by (induction as arbitrary: w) (auto simp: files_keep_or_put_other)

lemma files_fold_keep_new:
  "distinct (map fst as) \<Longrightarrow> (n, c, ok) \<in> set as \<Longrightarrow> files w n = None \<Longrightarrow>
   \<not> write_denied env n \<Longrightarrow> files (fold (keep_or_put env) as w) n = Some c"
proof (induction as arbitrary: w)
  case Nil
  then show ?case by simp
next
  case (Cons a as)
  show ?case
  proof (cases "(n, c, ok) = a")
    case True
    with Cons.prems have "files (keep_or_put env a w) n = Some c"
      by (auto simp: keep_or_put_def exists_def files_put_asset)
    then show ?thesis by (simp add: files_fold_keep_old)
  next
    case False
    with Cons.prems have in_as: "(n, c, ok) \<in> set as" and ne: "n \<noteq> fst a"
      by (auto simp: image_iff)
    from Cons.prems have d: "distinct (map fst as)" by simp
    from ne Cons.prems(3) have "files (keep_or_put env a w) n = None"
      by (simp add: files_keep_or_put_other)
    from Cons.IH [OF d in_as this Cons.prems(4)] show ?thesis by simp
  qed
qed

subsection \<open>Isolation of the seven assets\<close>

text \<open>
  C5. With a logo that decodes, each of the seven assets of Mode B is handled on its
  own: an asset whose write is refused leaves an error message and its destination as
  it was, and every other asset is written with the content declared for it and
  reported; the run prints one message for each of the seven.
\<close>

theorem assets_are_isolated:
  assumes "files w LOGO_FILENAME = Some c0" and "decode env c0 = Some img"
  shows "(\<forall>(name, c, ok) \<in> set (logo_assets env img).
            (write_denied env name \<longrightarrow>
               Error_generating name PermissionError \<in> set (out (generate_all_assets env w))
               \<and> files (generate_all_assets env w) name = files w name)
          \<and> (\<not> write_denied env name \<longrightarrow>
               ok \<in> set (out (generate_all_assets env w))
               \<and> files (generate_all_assets env w) name = Some c))
       \<and> length (logo_assets env img) = 7
       \<and> length (out (generate_all_assets env w)) = length (out w) + 7"
proof -
  let ?g = "generate_all_assets env w"
  have g: "?g = fold (put_asset env) (logo_assets env img) w"
    using assms by (rule generate_all_assets_eq)
  have len: "length (logo_assets env img) = 7" by (simp add: logo_assets_def)
  have "\<And>name c ok. (name, c, ok) \<in> set (logo_assets env img) \<Longrightarrow>
      (write_denied env name \<longrightarrow>
         Error_generating name PermissionError \<in> set (out ?g) \<and> files ?g name = files w name)
      \<and> (\<not> write_denied env name \<longrightarrow> ok \<in> set (out ?g) \<and> files ?g name = Some c)"
  proof -
    fix name c ok
    assume a: "(name, c, ok) \<in> set (logo_assets env img)"
    then have "report env (name, c, ok) \<in> set (out ?g)"
      unfolding g out_fold_put by simp
    moreover have "files ?g name = (if write_denied env name then files w name else Some c)"
      unfolding g using distinct_logo_assets a by (rule files_fold_put)
    ultimately show "(write_denied env name \<longrightarrow>
         Error_generating name PermissionError \<in> set (out ?g) \<and> files ?g name = files w name)
      \<and> (\<not> write_denied env name \<longrightarrow> ok \<in> set (out ?g) \<and> files ?g name = Some c)"
      by (auto simp: report_def split: if_splits)
  qed
  moreover have "length (out ?g) = length (out w) + 7"
    unfolding g out_fold_put using len by simp
  ultimately show ?thesis using len by blast
qed


theorem assets_are_isolated_witness:
  "files (logo_dir glass_logo) LOGO_FILENAME = Some (Encoded PNG [glass_logo])
   \<and> decode (flat_platform\<lparr>write_denied := (\<lambda>p. p = APPLE_TOUCH_ICON)\<rparr>)
        (Encoded PNG [glass_logo]) = Some glass_logo
   \<and> out (generate_all_assets (flat_platform\<lparr>write_denied := (\<lambda>p. p = APPLE_TOUCH_ICON)\<rparr>)
        (logo_dir glass_logo))
     = [Replaced_sized FAVICON_16 16 16, Replaced_sized FAVICON_32 32 32,
        Error_generating APPLE_TOUCH_ICON PermissionError, Replaced_if_existed FAVICON_ICO,
        Replaced PREVIEW_PNG, Replaced PREVIEW_JPG, Replaced PREVIEW_WEBP]
   \<and> files (generate_all_assets (flat_platform\<lparr>write_denied := (\<lambda>p. p = APPLE_TOUCH_ICON)\<rparr>)
        (logo_dir glass_logo)) APPLE_TOUCH_ICON = None
   \<and> files (generate_all_assets (flat_platform\<lparr>write_denied := (\<lambda>p. p = APPLE_TOUCH_ICON)\<rparr>)
        (logo_dir glass_logo)) PREVIEW_JPG
     = Some (Encoded JPEG [\<lparr>im_size = (1, 1), im_data = Pix_RGB [(200, 30, 30)]\<rparr>])
   \<and> files (generate_all_assets (flat_platform\<lparr>write_denied := (\<lambda>p. p = APPLE_TOUCH_ICON)\<rparr>)
        (logo_dir glass_logo)) PREVIEW_WEBP
     = Some (Encoded WEBP [glass_logo])"
proof -
  let ?env = "flat_platform\<lparr>write_denied := (\<lambda>p. p = APPLE_TOUCH_ICON)\<rparr>"
  have h1: "files (logo_dir glass_logo) LOGO_FILENAME = Some (Encoded PNG [glass_logo])"
    by (simp add: logo_dir_def)
  have h2: "decode ?env (Encoded PNG [glass_logo]) = Some glass_logo"
    by (simp add: flat_platform_def)
  have g: "generate_all_assets ?env (logo_dir glass_logo)
      = fold (put_asset ?env) (logo_assets ?env glass_logo) (logo_dir glass_logo)"
    using h1 h2 by (rule generate_all_assets_eq)
  have o: "out (generate_all_assets ?env (logo_dir glass_logo))
     = [Replaced_sized FAVICON_16 16 16, Replaced_sized FAVICON_32 32 32,
        Error_generating APPLE_TOUCH_ICON PermissionError, Replaced_if_existed FAVICON_ICO,
        Replaced PREVIEW_PNG, Replaced PREVIEW_JPG, Replaced PREVIEW_WEBP]"
    unfolding g out_fold_put by (simp add: logo_assets_def report_def logo_dir_def)
  have e: "ensure_rgb glass_logo = \<lparr>im_size = (1, 1), im_data = Pix_RGB [(200, 30, 30)]\<rparr>"
    by (simp add: ensure_rgb_def glass_logo_def im_mode_def convert_RGB_def)
  have a: "ensure_rgba glass_logo = glass_logo"
    by (simp add: ensure_rgba_def glass_logo_def im_mode_def)
  have m: "(PREVIEW_JPG, Encoded JPEG [ensure_rgb glass_logo], Replaced PREVIEW_JPG)
        \<in> set (logo_assets ?env glass_logo)"
      "(PREVIEW_WEBP, Encoded WEBP [ensure_rgba glass_logo], Replaced PREVIEW_WEBP)
        \<in> set (logo_assets ?env glass_logo)"
      "(APPLE_TOUCH_ICON, Encoded PNG [resized ?env (ensure_rgba glass_logo) (180, 180)],
         Replaced_sized APPLE_TOUCH_ICON 180 180) \<in> set (logo_assets ?env glass_logo)"
    by (simp_all add: logo_assets_def)
  from assets_are_isolated [OF h1 h2] m
  have "files (generate_all_assets ?env (logo_dir glass_logo)) APPLE_TOUCH_ICON
          = files (logo_dir glass_logo) APPLE_TOUCH_ICON"
    and "files (generate_all_assets ?env (logo_dir glass_logo)) PREVIEW_JPG
          = Some (Encoded JPEG [ensure_rgb glass_logo])"
    and "files (generate_all_assets ?env (logo_dir glass_logo)) PREVIEW_WEBP
          = Some (Encoded WEBP [ensure_rgba glass_logo])"
    by fastforce+
  with h1 h2 o e a show ?thesis by (simp add: logo_dir_def)
qed

subsection \<open>What the conservative script never touches, and alpha after conversion\<close>

lemma files_convert_webp_file_old:
  "files w p = Some old \<Longrightarrow> files (convert_webp_file env f w) p = Some old"
  by (auto simp: convert_webp_file_def Let_def exists_def print_def bind_in_def
        Image_save_def split: sum.splits if_splits)

lemma files_fold_convert_old:
  "files w p = Some old \<Longrightarrow> files (fold (convert_webp_file env) fs w) p = Some old"
  by (induction fs arbitrary: w) (simp_all add: files_convert_webp_file_old)

lemma files_convert_all_old:
  "files w p = Some old \<Longrightarrow> files (convert_all_webp_to_ico env listing w) p = Some old"
  by (simp add: convert_all_webp_to_ico_def Let_def print_def files_fold_convert_old)

lemma files_generate_icons_old:
  assumes old: "files w p = Some old"
  shows "files (generate_icons_from_logo env w) p = Some old"
proof (cases "bind_result (Image_open env w ''logo.png'') (\<lambda>img.
    bind_result (Image_load img) flatten_image_to_white)")
  case (Inl e)
  with old show ?thesis by (simp add: generate_icons_from_logo_def print_def)
next
  case (Inr img_rgb)
  have "fold (generate_png env img_rgb) targets w
      = fold (keep_or_put env) (take 3 (logo_icons env img_rgb)) w"
    by (simp add: targets_def generate_png_eq logo_icons_def)
  with Inr old show ?thesis
    by (simp add: generate_icons_from_logo_def print_def generate_ico_eq
        files_keep_or_put_old files_fold_keep_old del: fold_simps)
qed

lemma im_mode_ensure_rgba: "im_mode (ensure_rgba img) = Mode_RGBA"
  by (simp add: ensure_rgba_def im_mode_convert_RGBA)

lemma im_mode_ensure_rgb: "im_mode (ensure_rgb img) = Mode_RGB"
  by (simp add: ensure_rgb_def im_mode_convert_RGB)

lemma alpha_of_grey: "map (alpha_of \<circ> (\<lambda>l. (l, l, l, 255))) ls = replicate (length ls) 255"
  by (induction ls) simp_all

lemma alpha_of_grey_alpha: "map (alpha_of \<circ> (\<lambda>(l, a). (l, l, l, a))) ps = map snd ps"
  by (induction ps) auto

lemma alpha_of_colour:
  "map (alpha_of \<circ> (\<lambda>(r, g, b). (r, g, b, 255))) ps = replicate (length ps) 255"
  by (induction ps) auto

lemma alphas_to_rgba:
  "map alpha_of (to_rgba d)
     = (case alphas d of Some as \<Rightarrow> as | None \<Rightarrow> replicate (length (to_rgba d)) 255)"
  by (cases d) (simp_all add: alpha_of_grey alpha_of_grey_alpha alpha_of_colour)

lemma alphas_ensure_rgba:
  "alphas (im_data (ensure_rgba img))
     = Some (case alphas (im_data img) of
               Some as \<Rightarrow> as
             | None \<Rightarrow> replicate (length (to_rgba (im_data img))) 255)"
proof (cases "im_mode img = Mode_RGBA")
  case True
  then show ?thesis
    by (cases "im_data img") (simp_all add: ensure_rgba_def im_mode_def)
next
  case False
  then show ?thesis
    by (simp add: ensure_rgba_def convert_RGBA_def alphas_to_rgba)
qed

lemma alphas_RGB: "im_mode x = Mode_RGB \<Longrightarrow> alphas (im_data x) = None"
  by (cases "im_data x") (simp_all add: im_mode_def)

subsection \<open>The frames of \<^verbatim>\<open>favicon.ico\<close>\<close>

text \<open>
  C1. For a 64 by 64 logo, the \<^verbatim>\<open>favicon.ico\<close> either script writes holds one
  frame, of 16 by 16: both scripts build the four resized images and hand only the
  first to the encoder, which drops every requested size larger than the image it is
  given. The sizes 32, 48 and 64 are missing from the file.
\<close>

theorem favicon_ico_single_frame:
  "files (generate_all_assets flat_platform (logo_dir square_logo)) FAVICON_ICO
     = Some (Encoded ICO
         [\<lparr>im_size = (16, 16), im_data = Pix_RGBA (replicate 256 (200, 30, 30, 255))\<rparr>])
   \<and> files (generate_icons_from_logo flat_platform (logo_dir square_logo)) ''favicon.ico''
     = Some (Encoded ICO
         [\<lparr>im_size = (16, 16), im_data = Pix_RGB (replicate 256 (200, 30, 30))\<rparr>])"
proof -
  have h1: "files (logo_dir square_logo) LOGO_FILENAME = Some (Encoded PNG [square_logo])"
    by (simp add: logo_dir_def)
  have h2: "decode flat_platform (Encoded PNG [square_logo]) = Some square_logo"
    by (simp add: flat_platform_def)
  have f: "flatten_image_to_white square_logo = Inr square_logo"
    by (simp add: flatten_fixed im_mode_def square_logo_def)
  have r2: "resized flat_platform (ensure_rgba square_logo) (16, 16)
      = \<lparr>im_size = (16, 16), im_data = Pix_RGBA (replicate 256 (200, 30, 30, 255))\<rparr>"
    by (simp add: resized_def resampled_def ensure_rgba_def convert_RGBA_def im_mode_def
        square_logo_def flat_platform_def)
  have r1: "resized flat_platform square_logo (16, 16)
      = \<lparr>im_size = (16, 16), im_data = Pix_RGB (replicate 256 (200, 30, 30))\<rparr>"
    by (simp add: resized_def resampled_def im_mode_def square_logo_def flat_platform_def)
  have a: "files (generate_all_assets flat_platform (logo_dir square_logo)) FAVICON_ICO
      = Some (Encoded ICO [resized flat_platform (ensure_rgba square_logo) (16, 16)])"
    unfolding generate_all_assets_eq [OF h1 h2]
    by (subst files_fold_put [OF distinct_logo_assets,
          where c = "Encoded ICO [resized flat_platform (ensure_rgba square_logo) (16, 16)]"
            and ok = "Replaced_if_existed FAVICON_ICO"])
       (simp_all add: logo_assets_def flat_platform_def)
  have b: "files (generate_icons_from_logo flat_platform (logo_dir square_logo)) ''favicon.ico''
      = Some (Encoded ICO [resized flat_platform square_logo (16, 16)])"
    unfolding generate_icons_from_logo_eq [OF h1 h2 f]
    by (rule files_fold_keep_new [OF distinct_logo_icons,
          where ok = "Generated_multi ''favicon.ico''"])
       (simp_all add: logo_icons_def flat_platform_def logo_dir_def)
  from a b r1 r2 show ?thesis by simp
qed

subsection \<open>Overwrite policy\<close>

text \<open>
  C2, as the scripts have it. In the replacing script, Mode B puts the declared content
  at every destination whose write is not refused, whatever was there. In the
  conservative script no file that exists is ever changed, neither by Mode B nor by the
  bulk conversion, and Mode B prints a skip notice for each of its four destinations
  that exists.
\<close>

theorem overwrite_policy_by_variant:
  assumes "files w LOGO_FILENAME = Some c0" and "decode env c0 = Some img"
  shows "(\<forall>(name, c, ok) \<in> set (logo_assets env img).
            \<not> write_denied env name \<longrightarrow> files (generate_all_assets env w) name = Some c)
       \<and> (\<forall>name old. files w name = Some old \<longrightarrow>
            files (generate_icons_from_logo env w) name = Some old
            \<and> files (convert_all_webp_to_ico env listing w) name = Some old)
       \<and> (\<forall>name \<in> {''favicon-16x16.png'', ''favicon-32x32.png'', ''apple-touch-icon.png'',
                      ''favicon.ico''}.
            exists w name \<longrightarrow> Skip_exists name \<in> set (out (generate_icons_from_logo env w)))"
proof -
  have a: "\<forall>(name, c, ok) \<in> set (logo_assets env img).
            \<not> write_denied env name \<longrightarrow> files (generate_all_assets env w) name = Some c"
    unfolding generate_all_assets_eq [OF assms]
    using files_fold_put [OF distinct_logo_assets] by fastforce
  have b: "\<forall>name old. files w name = Some old \<longrightarrow>
            files (generate_icons_from_logo env w) name = Some old
            \<and> files (convert_all_webp_to_ico env listing w) name = Some old"
    by (simp add: files_generate_icons_old files_convert_all_old)
  obtain img_rgb where f: "flatten_image_to_white img = Inr img_rgb"
    using flatten_returns by blast
  have names: "fst ` set (logo_icons env img_rgb)
      = {''favicon-16x16.png'', ''favicon-32x32.png'', ''apple-touch-icon.png'', ''favicon.ico''}"
    by (simp add: logo_icons_def)
  have c: "\<forall>name \<in> {''favicon-16x16.png'', ''favicon-32x32.png'', ''apple-touch-icon.png'',
                      ''favicon.ico''}.
            exists w name \<longrightarrow> Skip_exists name \<in> set (out (generate_icons_from_logo env w))"
    unfolding generate_icons_from_logo_eq [OF assms f] names [symmetric]
    using skip_fold_keep by (fastforce simp: exists_def)
  from a b c show ?thesis by blast
qed

theorem overwrite_policy_by_variant_witness:
  "files (logo_dir_with glass_logo ''favicon.ico'' (Bytes [1, 2, 3])) LOGO_FILENAME
     = Some (Encoded PNG [glass_logo])
   \<and> decode flat_platform (Encoded PNG [glass_logo]) = Some glass_logo
   \<and> files (generate_all_assets flat_platform
              (logo_dir_with glass_logo ''favicon.ico'' (Bytes [1, 2, 3]))) ''favicon.ico''
     = Some (Encoded ICO
         [\<lparr>im_size = (16, 16), im_data = Pix_RGBA (replicate 256 (200, 30, 30, 128))\<rparr>])
   \<and> files (generate_icons_from_logo flat_platform
              (logo_dir_with glass_logo ''favicon.ico'' (Bytes [1, 2, 3]))) ''favicon.ico''
     = Some (Bytes [1, 2, 3])
   \<and> Skip_exists ''favicon.ico''
       \<in> set (out (generate_icons_from_logo flat_platform
                (logo_dir_with glass_logo ''favicon.ico'' (Bytes [1, 2, 3]))))"
proof -
  let ?w = "logo_dir_with glass_logo ''favicon.ico'' (Bytes [1, 2, 3])"
  have h1: "files ?w LOGO_FILENAME = Some (Encoded PNG [glass_logo])"
    by (simp add: logo_dir_with_def)
  have h2: "decode flat_platform (Encoded PNG [glass_logo]) = Some glass_logo"
    by (simp add: flat_platform_def)
  have old: "files ?w ''favicon.ico'' = Some (Bytes [1, 2, 3])"
    by (simp add: logo_dir_with_def)
  have m: "(FAVICON_ICO, Encoded ICO [resized flat_platform (ensure_rgba glass_logo) (16, 16)],
         Replaced_if_existed FAVICON_ICO) \<in> set (logo_assets flat_platform glass_logo)"
    by (simp add: logo_assets_def)
  have nd: "\<not> write_denied flat_platform FAVICON_ICO"
    by (simp add: flat_platform_def)
  have r: "resized flat_platform (ensure_rgba glass_logo) (16, 16)
      = \<lparr>im_size = (16, 16), im_data = Pix_RGBA (replicate 256 (200, 30, 30, 128))\<rparr>"
    by (simp add: resized_def resampled_def ensure_rgba_def im_mode_def glass_logo_def
        flat_platform_def)
  note t = overwrite_policy_by_variant [OF h1 h2, of "[]"]
  from t m nd have "files (generate_all_assets flat_platform ?w) ''favicon.ico''
      = Some (Encoded ICO [resized flat_platform (ensure_rgba glass_logo) (16, 16)])"
    by fastforce
  moreover from t old have "files (generate_icons_from_logo flat_platform ?w) ''favicon.ico''
      = Some (Bytes [1, 2, 3])"
    by blast
  moreover from t old have "Skip_exists ''favicon.ico''
       \<in> set (out (generate_icons_from_logo flat_platform ?w))"
    by (simp add: exists_def)
  ultimately show ?thesis using h1 h2 r by simp
qed

text \<open>
  C2 as stated fails on the conservative script: with \<^verbatim>\<open>favicon-16x16.png\<close> already
  in the directory, its Mode B keeps the file and prints the skip notice.
\<close>

theorem conservative_logo_run_skips:
  "files (generate_icons_from_logo flat_platform
            (logo_dir_with glass_logo ''favicon-16x16.png'' (Bytes [1, 2, 3])))
       ''favicon-16x16.png'' = Some (Bytes [1, 2, 3])
   \<and> out (generate_icons_from_logo flat_platform
            (logo_dir_with glass_logo ''favicon-16x16.png'' (Bytes [1, 2, 3])))
     = [Skip_exists ''favicon-16x16.png'', Generated_sized ''favicon-32x32.png'' 32 32,
        Generated_sized ''apple-touch-icon.png'' 180 180, Generated_multi ''favicon.ico'']"
proof -
  let ?w = "logo_dir_with glass_logo ''favicon-16x16.png'' (Bytes [1, 2, 3])"
  have h1: "files ?w ''logo.png'' = Some (Encoded PNG [glass_logo])"
    by (simp add: logo_dir_with_def)
  have h2: "decode flat_platform (Encoded PNG [glass_logo]) = Some glass_logo"
    by (simp add: flat_platform_def)
  obtain img_rgb where f: "flatten_image_to_white glass_logo = Inr img_rgb"
    using flatten_returns by blast
  have o: "out (generate_icons_from_logo flat_platform ?w)
     = [Skip_exists ''favicon-16x16.png'', Generated_sized ''favicon-32x32.png'' 32 32,
        Generated_sized ''apple-touch-icon.png'' 180 180, Generated_multi ''favicon.ico'']"
    unfolding generate_icons_from_logo_eq [OF h1 h2 f]
    by (simp add: logo_icons_def keep_or_put_def exists_def logo_dir_with_def print_def
        put_asset_def flat_platform_def)
  have "files ?w ''favicon-16x16.png'' = Some (Bytes [1, 2, 3])"
    by (simp add: logo_dir_with_def)
  then have "files (generate_icons_from_logo flat_platform ?w) ''favicon-16x16.png''
      = Some (Bytes [1, 2, 3])"
    by (rule files_generate_icons_old)
  with o show ?thesis by simp
qed

subsection \<open>Normalising for a target without alpha\<close>

text \<open>
  Pillow's division by 255 rounds to the nearest integer on the range a blend needs, so
  pasting onto white through the image's own alpha is compositing onto white.
\<close>

lemma div255_core:
  fixes q r :: nat
  assumes "r < 255" "q \<le> 255"
  shows "((255 * q + r + 128) div 256 + (255 * q + r + 128)) div 256
     = (2 * (255 * q + r) + 255) div 510"
proof -
  have rhs: "(2 * (255 * q + r) + 255) div 510 = (if 128 \<le> r then q + 1 else q)"
    using assms by (auto intro!: div_nat_eqI)
  have u: "(255 * q + r + 128) div 256
      = (if q + 128 \<le> r then q + 1 else if q \<le> r + 128 then q else q - 1)"
    using assms by (auto intro!: div_nat_eqI)
  have "((255 * q + r + 128) div 256 + (255 * q + r + 128)) div 256
      = (if 128 \<le> r then q + 1 else q)"
    unfolding u using assms by (auto intro!: div_nat_eqI)
  with rhs show ?thesis by simp
qed

lemma div255_rounds:
  assumes "x \<le> 65025"
  shows "div255 x = (2 * x + 255) div 510"
proof -
  have x: "x = 255 * (x div 255) + x mod 255" by simp
  have r: "x mod 255 < 255" by simp
  have q: "x div 255 \<le> 255" using assms by simp
  from div255_core [OF r q] show ?thesis
    unfolding div255_def Let_def using x by simp
qed

lemma blend8_white: "blend8 a 255 c = over_white c a"
proof -
  have bound: "unat b \<le> 255" for b :: byte
    using unsigned_less [of b, where ?'a = nat] by simp
  have "unat c * unat a \<le> 255 * unat a"
    using bound [of c] by (rule mult_le_mono1)
  moreover have "unat a \<le> 255" by (rule bound)
  ultimately have "unat c * unat a + 255 * (255 - unat a) \<le> 65025" by linarith
  from div255_rounds [OF this] have "div255 (255 * (255 - unat a) + unat c * unat a)
      = (2 * (unat c * unat a + 255 * (255 - unat a)) + 255) div 510"
    by (simp only: add.commute)
  moreover have "unat (255 :: byte) = 255" by simp
  ultimately show ?thesis
    by (simp only: blend8_def over_white_def)
qed

lemma paste_onto_replicate:
  "length ps = n \<Longrightarrow>
   paste_cells (replicate n d) ps (map alpha_of ps) = map (\<lambda>p. blend_cell (alpha_of p) d p) ps"
  by (induction ps arbitrary: n) auto

lemma blend_white_rgb:
  "(case blend_cell (alpha_of p) (255, 255, 255, 255) p of (r, g, b, a) \<Rightarrow> (r, g, b))
     = (case p of (r, g, b, a) \<Rightarrow> (over_white r a, over_white g a, over_white b a))"
  by (cases p) (simp add: blend8_white)

lemma mask_band_alpha:
  "raster_mode d = Mode_RGBA \<or> raster_mode d = Mode_LA \<Longrightarrow>
   mask_band d = Some (map alpha_of (to_rgba d))"
  by (cases d) (simp_all add: alpha_of_grey_alpha)

lemma flatten_composites:
  assumes "im_mode img = Mode_RGBA \<or> im_mode img = Mode_LA"
    and "length (to_rgba (im_data img)) = fst (im_size img) * snd (im_size img)"
  shows "flatten_image_to_white img = Inr (composite_onto_white img)"
proof -
  from assms(1) have mb: "mask_band (im_data img) = Some (map alpha_of (to_rgba (im_data img)))"
    unfolding im_mode_def by (rule mask_band_alpha)
  have "map (\<lambda>(r, g, b, a). (r, g, b))
          (map (\<lambda>p. blend_cell (alpha_of p) (255, 255, 255, 255) p) (to_rgba (im_data img)))
      = map (\<lambda>(r, g, b, a). (over_white r a, over_white g a, over_white b a))
          (to_rgba (im_data img))"
    using blend_white_rgb by (simp add: comp_def)
  with assms mb show ?thesis
    by (simp add: flatten_image_to_white_def Image_paste_def Image_new_RGBA_def
        paste_onto_replicate convert_RGB_def composite_onto_white_def)
qed


lemma im_data_ensure_rgb: "im_data (ensure_rgb img) = Pix_RGB (to_rgb (im_data img))"
  by (cases "im_data img") (simp_all add: ensure_rgb_def im_mode_def convert_RGB_def)

lemma im_size_ensure_rgb: "im_size (ensure_rgb img) = im_size img"
  by (simp add: ensure_rgb_def convert_RGB_def)

text \<open>
  C3, as the scripts have it. \<open>ensure_rgb\<close> and \<open>flatten_image_to_white\<close> return, for
  every image, an RGB image of the same size with no alpha. \<open>ensure_rgb\<close> keeps the
  colour bytes as stored and drops the alpha byte. \<open>flatten_image_to_white\<close> composites
  an RGBA or LA image onto white.
\<close>

theorem normalising_for_jpeg:
  "im_mode (ensure_rgb img) = Mode_RGB
   \<and> im_size (ensure_rgb img) = im_size img
   \<and> alphas (im_data (ensure_rgb img)) = None
   \<and> im_data (ensure_rgb img) = Pix_RGB (to_rgb (im_data img))
   \<and> (\<exists>r. flatten_image_to_white img = Inr r \<and> im_mode r = Mode_RGB
          \<and> im_size r = im_size img \<and> alphas (im_data r) = None)
   \<and> ((im_mode img = Mode_RGBA \<or> im_mode img = Mode_LA)
        \<and> length (to_rgba (im_data img)) = fst (im_size img) * snd (im_size img)
      \<longrightarrow> flatten_image_to_white img = Inr (composite_onto_white img))"
proof -
  obtain r where r: "flatten_image_to_white img = Inr r" "im_mode r = Mode_RGB"
      "im_size r = im_size img"
    using flatten_returns by blast
  from r(2) have "alphas (im_data r) = None" by (rule alphas_RGB)
  with r have f: "\<exists>r. flatten_image_to_white img = Inr r \<and> im_mode r = Mode_RGB
          \<and> im_size r = im_size img \<and> alphas (im_data r) = None"
    by blast
  have a: "alphas (im_data (ensure_rgb img)) = None"
    using im_mode_ensure_rgb by (rule alphas_RGB)
  from f a im_mode_ensure_rgb [of img] im_size_ensure_rgb [of img] im_data_ensure_rgb [of img]
    flatten_composites [of img]
  show ?thesis by (intro conjI impI) simp_all
qed

theorem normalising_for_jpeg_witness:
  "(im_mode glass_logo = Mode_RGBA \<or> im_mode glass_logo = Mode_LA)
   \<and> length (to_rgba (im_data glass_logo)) = fst (im_size glass_logo) * snd (im_size glass_logo)
   \<and> flatten_image_to_white glass_logo
       = Inr \<lparr>im_size = (1, 1), im_data = Pix_RGB [(227, 142, 142)]\<rparr>
   \<and> composite_onto_white glass_logo = \<lparr>im_size = (1, 1), im_data = Pix_RGB [(227, 142, 142)]\<rparr>
   \<and> ensure_rgb glass_logo = \<lparr>im_size = (1, 1), im_data = Pix_RGB [(200, 30, 30)]\<rparr>"
proof -
  have h: "(im_mode glass_logo = Mode_RGBA \<or> im_mode glass_logo = Mode_LA)
      \<and> length (to_rgba (im_data glass_logo)) = fst (im_size glass_logo) * snd (im_size glass_logo)"
    by (simp add: glass_logo_def im_mode_def)
  have c: "composite_onto_white glass_logo
      = \<lparr>im_size = (1, 1), im_data = Pix_RGB [(227, 142, 142)]\<rparr>"
    by (simp add: composite_onto_white_def glass_logo_def over_white_def)
  have e: "ensure_rgb glass_logo = \<lparr>im_size = (1, 1), im_data = Pix_RGB [(200, 30, 30)]\<rparr>"
    by (simp add: ensure_rgb_def glass_logo_def im_mode_def convert_RGB_def)
  from normalising_for_jpeg [of glass_logo] h
  have "flatten_image_to_white glass_logo = Inr (composite_onto_white glass_logo)" by blast
  with h c e show ?thesis by simp
qed

text \<open>
  C3 as stated fails on \<open>ensure_rgb\<close>, the normaliser of the JPEG preview: a fully
  transparent black pixel becomes black, where compositing onto white gives white.
\<close>

theorem ensure_rgb_does_not_composite:
  "alphas (im_data clear_logo) = Some [0]
   \<and> ensure_rgb clear_logo = \<lparr>im_size = (1, 1), im_data = Pix_RGB [(0, 0, 0)]\<rparr>
   \<and> composite_onto_white clear_logo = \<lparr>im_size = (1, 1), im_data = Pix_RGB [(255, 255, 255)]\<rparr>
   \<and> files (generate_all_assets flat_platform (logo_dir clear_logo)) PREVIEW_JPG
     = Some (Encoded JPEG [\<lparr>im_size = (1, 1), im_data = Pix_RGB [(0, 0, 0)]\<rparr>])"
proof -
  have h1: "files (logo_dir clear_logo) LOGO_FILENAME = Some (Encoded PNG [clear_logo])"
    by (simp add: logo_dir_def)
  have h2: "decode flat_platform (Encoded PNG [clear_logo]) = Some clear_logo"
    by (simp add: flat_platform_def)
  have e: "ensure_rgb clear_logo = \<lparr>im_size = (1, 1), im_data = Pix_RGB [(0, 0, 0)]\<rparr>"
    by (simp add: ensure_rgb_def clear_logo_def im_mode_def convert_RGB_def)
  have c: "composite_onto_white clear_logo
      = \<lparr>im_size = (1, 1), im_data = Pix_RGB [(255, 255, 255)]\<rparr>"
    by (simp add: composite_onto_white_def clear_logo_def over_white_def)
  have a: "alphas (im_data clear_logo) = Some [0]"
    by (simp add: clear_logo_def)
  have "files (generate_all_assets flat_platform (logo_dir clear_logo)) PREVIEW_JPG
      = Some (Encoded JPEG [ensure_rgb clear_logo])"
    unfolding generate_all_assets_eq [OF h1 h2]
    by (subst files_fold_put [OF distinct_logo_assets,
          where c = "Encoded JPEG [ensure_rgb clear_logo]" and ok = "Replaced PREVIEW_JPG"])
       (simp_all add: logo_assets_def flat_platform_def)
  with a e c show ?thesis by simp
qed

subsection \<open>Alpha in the assets that can hold it\<close>

text \<open>
  C4, as the scripts have it. In the replacing script every asset but \<^verbatim>\<open>preview.jpg\<close>
  is encoded from a single RGBA frame: each PNG icon from the image \<open>resize\<close> returns
  for \<open>ensure_rgba\<close> of the logo and the size of the icon, \<^verbatim>\<open>favicon.ico\<close> from the one
  it returns for 16 by 16, and the PNG and WEBP previews from \<open>ensure_rgba\<close> of the logo
  itself, whose alpha values are those of a logo that has alpha and 255 everywhere for a
  logo that has none. In the conservative script the logo is flattened first, which
  composites an RGBA or LA logo onto white, and every asset it writes is encoded from
  the image \<^verbatim>\<open>resize\<close> returns for the flattened logo, an RGB frame with no alpha.
\<close>

theorem alpha_capable_assets:
  assumes "files w LOGO_FILENAME = Some c0" and "decode env c0 = Some img"
  shows "(\<forall>(name, wd, ht) \<in> set icon_targets. \<not> write_denied env name \<longrightarrow>
            (\<exists>frame. resize env (ensure_rgba img) (wd, ht) = Inr frame
               \<and> files (generate_all_assets env w) name = Some (Encoded PNG [frame])
               \<and> im_mode frame = Mode_RGBA \<and> im_size frame = (wd, ht)))
       \<and> (\<not> write_denied env FAVICON_ICO \<longrightarrow>
            (\<exists>frame. resize env (ensure_rgba img) (16, 16) = Inr frame
               \<and> files (generate_all_assets env w) FAVICON_ICO = Some (Encoded ICO [frame])
               \<and> im_mode frame = Mode_RGBA \<and> im_size frame = (16, 16)))
       \<and> (\<not> write_denied env PREVIEW_PNG \<longrightarrow>
            files (generate_all_assets env w) PREVIEW_PNG = Some (Encoded PNG [ensure_rgba img]))
       \<and> (\<not> write_denied env PREVIEW_WEBP \<longrightarrow>
            files (generate_all_assets env w) PREVIEW_WEBP
              = Some (Encoded WEBP [ensure_rgba img]))
       \<and> im_mode (ensure_rgba img) = Mode_RGBA
       \<and> alphas (im_data (ensure_rgba img))
            = Some (case alphas (im_data img) of
                      Some as \<Rightarrow> as
                    | None \<Rightarrow> replicate (length (to_rgba (im_data img))) 255)
       \<and> (\<exists>img_rgb. flatten_image_to_white img = Inr img_rgb
            \<and> im_mode img_rgb = Mode_RGB \<and> alphas (im_data img_rgb) = None
            \<and> ((im_mode img = Mode_RGBA \<or> im_mode img = Mode_LA)
                  \<and> length (to_rgba (im_data img)) = fst (im_size img) * snd (im_size img)
                \<longrightarrow> img_rgb = composite_onto_white img)
            \<and> (\<forall>(name, wd, ht) \<in> set targets.
                  files w name = None \<longrightarrow> \<not> write_denied env name \<longrightarrow>
                  (\<exists>frame. Image_resize env img_rgb (wd, ht) = Inr frame
                     \<and> files (generate_icons_from_logo env w) name = Some (Encoded PNG [frame])
                     \<and> im_mode frame = Mode_RGB \<and> alphas (im_data frame) = None))
            \<and> (files w ''favicon.ico'' = None \<longrightarrow> \<not> write_denied env ''favicon.ico'' \<longrightarrow>
                  (\<exists>frame. Image_resize env img_rgb (16, 16) = Inr frame
                     \<and> files (generate_icons_from_logo env w) ''favicon.ico''
                         = Some (Encoded ICO [frame])
                     \<and> im_mode frame = Mode_RGB \<and> alphas (im_data frame) = None)))"
proof -
  let ?g = "generate_all_assets env w"
  let ?a = "ensure_rgba img"
  have g: "?g = fold (put_asset env) (logo_assets env img) w"
    using assms by (rule generate_all_assets_eq)
  have put: "\<And>name c ok. (name, c, ok) \<in> set (logo_assets env img) \<Longrightarrow>
      \<not> write_denied env name \<Longrightarrow> files ?g name = Some c"
    unfolding g by (simp add: files_fold_put [OF distinct_logo_assets])
  have rz: "resize env x (n, n) = Inr (resized env x (n, n))" if "0 < n" "n \<le> 256" for x n
    using that by (simp add: resize_def Image_resize_ok)
  have fr: "im_mode (resized env ?a sz) = Mode_RGBA" "im_size (resized env ?a sz) = sz" for sz
    by (simp_all add: im_mode_resized im_mode_ensure_rgba im_size_resized)
  have icon: "\<not> write_denied env name \<longrightarrow>
      (\<exists>frame. resize env ?a (n, n) = Inr frame
         \<and> files ?g name = Some (Encoded fmt [frame])
         \<and> im_mode frame = Mode_RGBA \<and> im_size frame = (n, n))"
    if m: "(name, Encoded fmt [resized env ?a (n, n)], ok) \<in> set (logo_assets env img)"
      and n: "0 < n" "n \<le> 256" for name fmt n ok
  proof
    assume nd: "\<not> write_denied env name"
    from put [OF m nd] rz [OF n, of ?a] fr [of "(n, n)"]
    show "\<exists>frame. resize env ?a (n, n) = Inr frame
         \<and> files ?g name = Some (Encoded fmt [frame])
         \<and> im_mode frame = Mode_RGBA \<and> im_size frame = (n, n)"
      by (intro exI [of _ "resized env ?a (n, n)"]) simp
  qed
  have a: "\<forall>(name, wd, ht) \<in> set icon_targets. \<not> write_denied env name \<longrightarrow>
            (\<exists>frame. resize env ?a (wd, ht) = Inr frame
               \<and> files ?g name = Some (Encoded PNG [frame])
               \<and> im_mode frame = Mode_RGBA \<and> im_size frame = (wd, ht))"
    using icon [of FAVICON_16 PNG 16 "Replaced_sized FAVICON_16 16 16"]
      icon [of FAVICON_32 PNG 32 "Replaced_sized FAVICON_32 32 32"]
      icon [of APPLE_TOUCH_ICON PNG 180 "Replaced_sized APPLE_TOUCH_ICON 180 180"]
    by (simp add: icon_targets_def logo_assets_def)
  have i: "\<not> write_denied env FAVICON_ICO \<longrightarrow>
            (\<exists>frame. resize env ?a (16, 16) = Inr frame
               \<and> files ?g FAVICON_ICO = Some (Encoded ICO [frame])
               \<and> im_mode frame = Mode_RGBA \<and> im_size frame = (16, 16))"
    using icon [of FAVICON_ICO ICO 16 "Replaced_if_existed FAVICON_ICO"]
    by (simp add: logo_assets_def)
  have b: "\<not> write_denied env PREVIEW_PNG \<longrightarrow>
      files ?g PREVIEW_PNG = Some (Encoded PNG [ensure_rgba img])"
    using put [of PREVIEW_PNG "Encoded PNG [ensure_rgba img]" "Replaced PREVIEW_PNG"]
    by (simp add: logo_assets_def)
  have c: "\<not> write_denied env PREVIEW_WEBP \<longrightarrow>
      files ?g PREVIEW_WEBP = Some (Encoded WEBP [ensure_rgba img])"
    using put [of PREVIEW_WEBP "Encoded WEBP [ensure_rgba img]" "Replaced PREVIEW_WEBP"]
    by (simp add: logo_assets_def)
  obtain img_rgb where f: "flatten_image_to_white img = Inr img_rgb"
    and m: "im_mode img_rgb = Mode_RGB"
    using flatten_returns by blast
  let ?k = "generate_icons_from_logo env w"
  from m have al: "alphas (im_data img_rgb) = None" by (rule alphas_RGB)
  have comp: "(im_mode img = Mode_RGBA \<or> im_mode img = Mode_LA)
        \<and> length (to_rgba (im_data img)) = fst (im_size img) * snd (im_size img)
      \<longrightarrow> img_rgb = composite_onto_white img"
    using flatten_composites [of img] f by auto
  have keep: "\<And>name c ok. (name, c, ok) \<in> set (logo_icons env img_rgb) \<Longrightarrow>
      files w name = None \<Longrightarrow> \<not> write_denied env name \<Longrightarrow> files ?k name = Some c"
    unfolding generate_icons_from_logo_eq [OF assms f]
    by (rule files_fold_keep_new [OF distinct_logo_icons])
  have frc: "im_mode (resized env img_rgb sz) = Mode_RGB"
      "alphas (im_data (resized env img_rgb sz)) = None" for sz
    using m by (simp_all add: im_mode_resized alphas_RGB)
  have flat: "files w name = None \<longrightarrow> \<not> write_denied env name \<longrightarrow>
      (\<exists>frame. Image_resize env img_rgb (n, n) = Inr frame
         \<and> files ?k name = Some (Encoded fmt [frame])
         \<and> im_mode frame = Mode_RGB \<and> alphas (im_data frame) = None)"
    if k: "(name, Encoded fmt [resized env img_rgb (n, n)], ok) \<in> set (logo_icons env img_rgb)"
      and n: "0 < n" "n \<le> 256" for name fmt n ok
  proof (intro impI)
    assume no: "files w name = None" and nd: "\<not> write_denied env name"
    from n have "Image_resize env img_rgb (n, n) = Inr (resized env img_rgb (n, n))"
      by (simp add: Image_resize_ok)
    with keep [OF k no nd] frc [of "(n, n)"]
    show "\<exists>frame. Image_resize env img_rgb (n, n) = Inr frame
         \<and> files ?k name = Some (Encoded fmt [frame])
         \<and> im_mode frame = Mode_RGB \<and> alphas (im_data frame) = None"
      by (intro exI [of _ "resized env img_rgb (n, n)"]) simp
  qed
  have d: "\<forall>(name, wd, ht) \<in> set targets.
      files w name = None \<longrightarrow> \<not> write_denied env name \<longrightarrow>
      (\<exists>frame. Image_resize env img_rgb (wd, ht) = Inr frame
         \<and> files ?k name = Some (Encoded PNG [frame])
         \<and> im_mode frame = Mode_RGB \<and> alphas (im_data frame) = None)"
    using flat [of "''favicon-16x16.png''" PNG 16 "Generated_sized ''favicon-16x16.png'' 16 16"]
      flat [of "''favicon-32x32.png''" PNG 32 "Generated_sized ''favicon-32x32.png'' 32 32"]
      flat [of "''apple-touch-icon.png''" PNG 180
        "Generated_sized ''apple-touch-icon.png'' 180 180"]
    by (simp add: targets_def logo_icons_def)
  have e: "files w ''favicon.ico'' = None \<longrightarrow> \<not> write_denied env ''favicon.ico'' \<longrightarrow>
      (\<exists>frame. Image_resize env img_rgb (16, 16) = Inr frame
         \<and> files ?k ''favicon.ico'' = Some (Encoded ICO [frame])
         \<and> im_mode frame = Mode_RGB \<and> alphas (im_data frame) = None)"
    using flat [of "''favicon.ico''" ICO 16 "Generated_multi ''favicon.ico''"]
    by (simp add: logo_icons_def)
  from f m al comp d e have cons: "\<exists>img_rgb. flatten_image_to_white img = Inr img_rgb
            \<and> im_mode img_rgb = Mode_RGB \<and> alphas (im_data img_rgb) = None
            \<and> ((im_mode img = Mode_RGBA \<or> im_mode img = Mode_LA)
                  \<and> length (to_rgba (im_data img)) = fst (im_size img) * snd (im_size img)
                \<longrightarrow> img_rgb = composite_onto_white img)
            \<and> (\<forall>(name, wd, ht) \<in> set targets.
                  files w name = None \<longrightarrow> \<not> write_denied env name \<longrightarrow>
                  (\<exists>frame. Image_resize env img_rgb (wd, ht) = Inr frame
                     \<and> files ?k name = Some (Encoded PNG [frame])
                     \<and> im_mode frame = Mode_RGB \<and> alphas (im_data frame) = None))
            \<and> (files w ''favicon.ico'' = None \<longrightarrow> \<not> write_denied env ''favicon.ico'' \<longrightarrow>
                  (\<exists>frame. Image_resize env img_rgb (16, 16) = Inr frame
                     \<and> files ?k ''favicon.ico'' = Some (Encoded ICO [frame])
                     \<and> im_mode frame = Mode_RGB \<and> alphas (im_data frame) = None))"
    by (intro exI [of _ img_rgb] conjI)
  from a i b c im_mode_ensure_rgba [of img] alphas_ensure_rgba [of img] cons
  show ?thesis by (intro conjI)
qed

theorem alpha_capable_assets_witness:
  "files (logo_dir glass_logo) LOGO_FILENAME = Some (Encoded PNG [glass_logo])
   \<and> decode flat_platform (Encoded PNG [glass_logo]) = Some glass_logo
   \<and> files (generate_all_assets flat_platform (logo_dir glass_logo)) FAVICON_16
     = Some (Encoded PNG
         [\<lparr>im_size = (16, 16), im_data = Pix_RGBA (replicate 256 (200, 30, 30, 128))\<rparr>])
   \<and> files (generate_all_assets flat_platform (logo_dir glass_logo)) FAVICON_ICO
     = Some (Encoded ICO
         [\<lparr>im_size = (16, 16), im_data = Pix_RGBA (replicate 256 (200, 30, 30, 128))\<rparr>])
   \<and> files (generate_all_assets flat_platform (logo_dir glass_logo)) PREVIEW_PNG
     = Some (Encoded PNG [glass_logo])
   \<and> files (generate_all_assets flat_platform (logo_dir glass_logo)) PREVIEW_WEBP
     = Some (Encoded WEBP [glass_logo])
   \<and> alphas (im_data (ensure_rgba glass_logo)) = Some [128]
   \<and> alphas (im_data (ensure_rgba square_logo)) = Some (replicate 4096 255)
   \<and> files (generate_icons_from_logo flat_platform (logo_dir glass_logo)) ''favicon-32x32.png''
     = Some (Encoded PNG
         [\<lparr>im_size = (32, 32), im_data = Pix_RGB (replicate 1024 (227, 142, 142))\<rparr>])"
proof -
  let ?w = "logo_dir glass_logo"
  let ?flat = "\<lparr>im_size = (1, 1), im_data = Pix_RGB [(227, 142, 142)]\<rparr>"
  have h1: "files ?w LOGO_FILENAME = Some (Encoded PNG [glass_logo])"
    by (simp add: logo_dir_def)
  have h2: "decode flat_platform (Encoded PNG [glass_logo]) = Some glass_logo"
    by (simp add: flat_platform_def)
  have h3: "files (logo_dir square_logo) LOGO_FILENAME = Some (Encoded PNG [square_logo])"
    by (simp add: logo_dir_def)
  have h4: "decode flat_platform (Encoded PNG [square_logo]) = Some square_logo"
    by (simp add: flat_platform_def)
  have a: "ensure_rgba glass_logo = glass_logo"
    by (simp add: ensure_rgba_def glass_logo_def im_mode_def)
  have nd: "\<not> write_denied flat_platform p" for p
    by (simp add: flat_platform_def)
  have r: "resize flat_platform glass_logo (16, 16)
      = Inr \<lparr>im_size = (16, 16), im_data = Pix_RGBA (replicate 256 (200, 30, 30, 128))\<rparr>"
    by (simp add: resize_def Image_resize_def out_of_memory_def resampled_def glass_logo_def
        im_mode_def flat_platform_def)
  have f: "flatten_image_to_white glass_logo = Inr ?flat"
    by (simp add: flatten_image_to_white_def glass_logo_def im_mode_def Image_paste_def
        Image_new_RGBA_def convert_RGB_def blend8_def div255_def)
  have r32: "Image_resize flat_platform ?flat (32, 32)
      = Inr \<lparr>im_size = (32, 32), im_data = Pix_RGB (replicate 1024 (227, 142, 142))\<rparr>"
    by (simp add: Image_resize_def out_of_memory_def resampled_def im_mode_def
        flat_platform_def)
  have n32: "files ?w ''favicon-32x32.png'' = None"
    by (simp add: logo_dir_def)
  note t = alpha_capable_assets [OF h1 h2]
  have m16: "(FAVICON_16, 16, 16) \<in> set icon_targets"
    and m32: "(''favicon-32x32.png'', 32, 32) \<in> set targets"
    by (simp_all add: icon_targets_def targets_def)
  from t m16 nd [of FAVICON_16]
  have "\<exists>frame. resize flat_platform (ensure_rgba glass_logo) (16, 16) = Inr frame
      \<and> files (generate_all_assets flat_platform ?w) FAVICON_16 = Some (Encoded PNG [frame])"
    by fastforce
  with a r have p16: "files (generate_all_assets flat_platform ?w) FAVICON_16
     = Some (Encoded PNG
         [\<lparr>im_size = (16, 16), im_data = Pix_RGBA (replicate 256 (200, 30, 30, 128))\<rparr>])"
    by auto
  from t nd [of FAVICON_ICO]
  have "\<exists>frame. resize flat_platform (ensure_rgba glass_logo) (16, 16) = Inr frame
      \<and> files (generate_all_assets flat_platform ?w) FAVICON_ICO = Some (Encoded ICO [frame])"
    by blast
  with a r have ico: "files (generate_all_assets flat_platform ?w) FAVICON_ICO
     = Some (Encoded ICO
         [\<lparr>im_size = (16, 16), im_data = Pix_RGBA (replicate 256 (200, 30, 30, 128))\<rparr>])"
    by auto
  from t nd [of PREVIEW_PNG] nd [of PREVIEW_WEBP] a
  have pv: "files (generate_all_assets flat_platform ?w) PREVIEW_PNG
          = Some (Encoded PNG [glass_logo])"
      "files (generate_all_assets flat_platform ?w) PREVIEW_WEBP
          = Some (Encoded WEBP [glass_logo])"
      "alphas (im_data (ensure_rgba glass_logo)) = Some [128]"
    by (simp_all add: glass_logo_def)
  from alpha_capable_assets [OF h3 h4]
  have sq: "alphas (im_data (ensure_rgba square_logo)) = Some (replicate 4096 255)"
    by (simp add: square_logo_def)
  from t obtain img_rgb where fl: "flatten_image_to_white glass_logo = Inr img_rgb"
    and tg: "\<forall>(name, wd, ht) \<in> set targets.
        files ?w name = None \<longrightarrow> \<not> write_denied flat_platform name \<longrightarrow>
        (\<exists>frame. Image_resize flat_platform img_rgb (wd, ht) = Inr frame
           \<and> files (generate_icons_from_logo flat_platform ?w) name
               = Some (Encoded PNG [frame])
           \<and> im_mode frame = Mode_RGB \<and> alphas (im_data frame) = None)"
    by blast
  from fl f have eq: "img_rgb = ?flat" by simp
  from tg m32 n32 nd [of "''favicon-32x32.png''"]
  have "\<exists>frame. Image_resize flat_platform img_rgb (32, 32) = Inr frame
      \<and> files (generate_icons_from_logo flat_platform ?w) ''favicon-32x32.png''
          = Some (Encoded PNG [frame])"
    by fastforce
  with eq r32 have c32: "files (generate_icons_from_logo flat_platform ?w) ''favicon-32x32.png''
     = Some (Encoded PNG
         [\<lparr>im_size = (32, 32), im_data = Pix_RGB (replicate 1024 (227, 142, 142))\<rparr>])"
    by auto
  from h1 h2 p16 ico pv sq c32 show ?thesis by (intro conjI)
qed

text \<open>
  C4 as stated fails on the conservative script: from a half-transparent logo its
  \<^verbatim>\<open>favicon-16x16.png\<close> is encoded from an RGB image, blended with white.
\<close>

theorem conservative_icons_are_flattened:
  "files (generate_icons_from_logo flat_platform (logo_dir glass_logo)) ''favicon-16x16.png''
     = Some (Encoded PNG
         [\<lparr>im_size = (16, 16), im_data = Pix_RGB (replicate 256 (227, 142, 142))\<rparr>])"
proof -
  have h1: "files (logo_dir glass_logo) ''logo.png'' = Some (Encoded PNG [glass_logo])"
    by (simp add: logo_dir_def)
  have h2: "decode flat_platform (Encoded PNG [glass_logo]) = Some glass_logo"
    by (simp add: flat_platform_def)
  have f: "flatten_image_to_white glass_logo
      = Inr \<lparr>im_size = (1, 1), im_data = Pix_RGB [(227, 142, 142)]\<rparr>"
    by (simp add: flatten_image_to_white_def glass_logo_def im_mode_def Image_paste_def
        Image_new_RGBA_def convert_RGB_def blend8_def div255_def)
  have r: "resized flat_platform \<lparr>im_size = (1, 1), im_data = Pix_RGB [(227, 142, 142)]\<rparr> (16, 16)
      = \<lparr>im_size = (16, 16), im_data = Pix_RGB (replicate 256 (227, 142, 142))\<rparr>"
    by (simp add: resized_def resampled_def im_mode_def flat_platform_def)
  have "files (generate_icons_from_logo flat_platform (logo_dir glass_logo)) ''favicon-16x16.png''
      = Some (Encoded PNG
          [resized flat_platform \<lparr>im_size = (1, 1), im_data = Pix_RGB [(227, 142, 142)]\<rparr>
             (16, 16)])"
    unfolding generate_icons_from_logo_eq [OF h1 h2 f]
    by (rule files_fold_keep_new [OF distinct_logo_icons,
          where ok = "Generated_sized ''favicon-16x16.png'' 16 16"])
       (simp_all add: logo_icons_def flat_platform_def logo_dir_def)
  with r show ?thesis by simp
qed

subsection \<open>Resizing to nothing\<close>

lemma im_size_ensure_rgba: "im_size (ensure_rgba img) = im_size img"
  by (simp add: ensure_rgba_def convert_RGBA_def)




subsection \<open>The bulk conversion that skips\<close>

lemma splitext_a: "splitext ''a.webp'' = (''a'', ''.webp'')"
  by (simp add: splitext_def rfind_def)

lemma splitext_b: "splitext ''b.webp'' = (''b'', ''.webp'')"
  by (simp add: splitext_def rfind_def)

lemma is_webp_ab: "is_webp ''a.webp''" "is_webp ''b.webp''" "\<not> is_webp ''a.ico''"
  by (simp_all add: is_webp_def endswith_def lower_def lower_char_def)

lemma files_convert_webp_file_other:
  "p \<noteq> fst (splitext f) @ ''.ico'' \<Longrightarrow> files (convert_webp_file env f w) p = files w p"
  by (auto simp: convert_webp_file_def Let_def print_def bind_in_def Image_save_def
        split: sum.splits if_splits)

lemma convert_webp_file_skip:
  "files w (fst (splitext f) @ ''.ico'') = Some old \<Longrightarrow>
   convert_webp_file env f w = print (Skip_ico (fst (splitext f)) f) w"
  by (simp add: convert_webp_file_def Let_def exists_def)

lemma convert_webp_file_write:
  assumes "files w (fst (splitext f) @ ''.ico'') = None" "files w f = Some c"
    "decode env c = Some img" "flatten_image_to_white img = Inr rgb"
    "\<not> write_denied env (fst (splitext f) @ ''.ico'')"
  shows "convert_webp_file env f w
     = print (Generated_ico (fst (splitext f)) f)
         (w\<lparr>files := (files w)(fst (splitext f) @ ''.ico''
                \<mapsto> Encoded ICO [resized env rgb (64, 64)])\<rparr>)"
  using assms
  by (simp add: convert_webp_file_def Let_def exists_def Image_open_def Image_load_def
      bind_in_def Image_resize_ok Image_save_def encode_def ico_frames_single im_size_resized)

lemma out_convert_webp_file_mono: "set (out w) \<subseteq> set (out (convert_webp_file env f w))"
  by (auto simp: convert_webp_file_def Let_def print_def bind_in_def Image_save_def
        split: sum.splits if_splits)

lemma distinct_pair:
  assumes "distinct xs" "set xs = {x, y}" "x \<noteq> y"
  shows "xs = [x, y] \<or> xs = [y, x]"
proof -
  from assms have "length xs = 2" using distinct_card [of xs] by simp
  then obtain u v where "xs = [u, v]"
    by (metis One_nat_def Suc_1 length_0_conv length_Suc_conv)
  with assms show ?thesis by (auto simp: doubleton_eq_iff)
qed

text \<open>
  C7. In a directory whose \<^verbatim>\<open>.webp\<close> files are \<^verbatim>\<open>a.webp\<close> and \<^verbatim>\<open>b.webp\<close> and
  that already holds \<^verbatim>\<open>a.ico\<close>, the conservative bulk conversion, in whatever order
  the directory is listed, leaves \<^verbatim>\<open>a.ico\<close> as it was, prints the skip notice for
  it, and changes no path other than \<^verbatim>\<open>b.ico\<close>; when \<^verbatim>\<open>b.ico\<close> is absent,
  \<^verbatim>\<open>b.webp\<close> decodes and the write is not refused, \<^verbatim>\<open>b.ico\<close> is written with the
  single 64 by 64 frame and reported.
\<close>

theorem skip_if_exists_scenario:
  assumes d: "distinct listing"
    and s: "set (filter is_webp listing) = {''a.webp'', ''b.webp''}"
    and old: "files w ''a.ico'' = Some old"
  shows "files (convert_all_webp_to_ico env listing w) ''a.ico'' = Some old
       \<and> Skip_ico ''a'' ''a.webp'' \<in> set (out (convert_all_webp_to_ico env listing w))
       \<and> (\<forall>p. p \<noteq> ''b.ico'' \<longrightarrow> files (convert_all_webp_to_ico env listing w) p = files w p)
       \<and> (files w ''b.ico'' = None \<and> files w ''b.webp'' = Some c \<and> decode env c = Some img
            \<and> \<not> write_denied env ''b.ico'' \<longrightarrow>
            (\<exists>rgb. flatten_image_to_white img = Inr rgb
               \<and> files (convert_all_webp_to_ico env listing w) ''b.ico''
                   = Some (Encoded ICO [resized env rgb (64, 64)]))
            \<and> Generated_ico ''b'' ''b.webp'' \<in> set (out (convert_all_webp_to_ico env listing w)))"
proof -
  let ?A = "convert_webp_file env ''a.webp''"
  let ?B = "convert_webp_file env ''b.webp''"
  let ?skip = "Skip_ico ''a'' ''a.webp''"
  have A: "\<And>v. files v ''a.ico'' = Some old \<Longrightarrow> ?A v = print ?skip v"
    using convert_webp_file_skip [of _ "''a.webp''" old env] by (simp add: splitext_a)
  have B: "\<And>v p. p \<noteq> ''b.ico'' \<Longrightarrow> files (?B v) p = files v p"
    using files_convert_webp_file_other [of _ "''b.webp''" env] by (simp add: splitext_b)
  have W: "\<And>v rgb. files v ''b.ico'' = None \<Longrightarrow> files v ''b.webp'' = Some c \<Longrightarrow>
      decode env c = Some img \<Longrightarrow> flatten_image_to_white img = Inr rgb \<Longrightarrow>
      \<not> write_denied env ''b.ico'' \<Longrightarrow>
      ?B v = print (Generated_ico ''b'' ''b.webp'')
               (v\<lparr>files := (files v)(''b.ico'' \<mapsto> Encoded ICO [resized env rgb (64, 64)])\<rparr>)"
    using convert_webp_file_write [of _ "''b.webp''" c env img] by (simp add: splitext_b)
  obtain rgb where f: "flatten_image_to_white img = Inr rgb"
    using flatten_returns by blast
  from distinct_pair [OF distinct_filter [OF d] s]
  have "filter is_webp listing = [''a.webp'', ''b.webp'']
      \<or> filter is_webp listing = [''b.webp'', ''a.webp'']"
    by simp
  then show ?thesis
  proof
    assume l: "filter is_webp listing = [''a.webp'', ''b.webp'']"
    have r: "convert_all_webp_to_ico env listing w = ?B (print ?skip w)"
      using l A [OF old] by (simp add: convert_all_webp_to_ico_def)
    have 1: "files (?B (print ?skip w)) ''a.ico'' = Some old"
      using B [of "''a.ico''" "print ?skip w"] old by (simp add: print_def)
    have 2: "?skip \<in> set (out (?B (print ?skip w)))"
      using out_convert_webp_file_mono [of "print ?skip w" env "''b.webp''"]
      by (auto simp: print_def)
    have 3: "\<forall>p. p \<noteq> ''b.ico'' \<longrightarrow> files (?B (print ?skip w)) p = files w p"
      using B [of _ "print ?skip w"] by (simp add: print_def)
    have 4: "files w ''b.ico'' = None \<and> files w ''b.webp'' = Some c \<and> decode env c = Some img
            \<and> \<not> write_denied env ''b.ico'' \<longrightarrow>
            (\<exists>rgb. flatten_image_to_white img = Inr rgb
               \<and> files (?B (print ?skip w)) ''b.ico''
                   = Some (Encoded ICO [resized env rgb (64, 64)]))
            \<and> Generated_ico ''b'' ''b.webp'' \<in> set (out (?B (print ?skip w)))"
    proof
      assume h: "files w ''b.ico'' = None \<and> files w ''b.webp'' = Some c
          \<and> decode env c = Some img \<and> \<not> write_denied env ''b.ico''"
      then have "?B (print ?skip w) = print (Generated_ico ''b'' ''b.webp'')
               ((print ?skip w)\<lparr>files := (files (print ?skip w))(''b.ico''
                   \<mapsto> Encoded ICO [resized env rgb (64, 64)])\<rparr>)"
        using f by (intro W) (simp_all add: print_def)
      with f show "(\<exists>rgb. flatten_image_to_white img = Inr rgb
               \<and> files (?B (print ?skip w)) ''b.ico''
                   = Some (Encoded ICO [resized env rgb (64, 64)]))
            \<and> Generated_ico ''b'' ''b.webp'' \<in> set (out (?B (print ?skip w)))"
        by (simp add: print_def)
    qed
    from 1 2 3 4 show ?thesis unfolding r by (intro conjI)
  next
    assume l: "filter is_webp listing = [''b.webp'', ''a.webp'']"
    have oldB: "files (?B w) ''a.ico'' = Some old"
      using B [of "''a.ico''" w] old by simp
    have r: "convert_all_webp_to_ico env listing w = print ?skip (?B w)"
      using l A [OF oldB] by (simp add: convert_all_webp_to_ico_def)
    have 1: "files (print ?skip (?B w)) ''a.ico'' = Some old"
      using oldB by (simp add: print_def)
    have 2: "?skip \<in> set (out (print ?skip (?B w)))"
      by (simp add: print_def)
    have 3: "\<forall>p. p \<noteq> ''b.ico'' \<longrightarrow> files (print ?skip (?B w)) p = files w p"
      using B [of _ w] by (simp add: print_def)
    have 4: "files w ''b.ico'' = None \<and> files w ''b.webp'' = Some c \<and> decode env c = Some img
            \<and> \<not> write_denied env ''b.ico'' \<longrightarrow>
            (\<exists>rgb. flatten_image_to_white img = Inr rgb
               \<and> files (print ?skip (?B w)) ''b.ico''
                   = Some (Encoded ICO [resized env rgb (64, 64)]))
            \<and> Generated_ico ''b'' ''b.webp'' \<in> set (out (print ?skip (?B w)))"
    proof
      assume h: "files w ''b.ico'' = None \<and> files w ''b.webp'' = Some c
          \<and> decode env c = Some img \<and> \<not> write_denied env ''b.ico''"
      then have "?B w = print (Generated_ico ''b'' ''b.webp'')
               (w\<lparr>files := (files w)(''b.ico'' \<mapsto> Encoded ICO [resized env rgb (64, 64)])\<rparr>)"
        using f by (intro W) simp_all
      with f show "(\<exists>rgb. flatten_image_to_white img = Inr rgb
               \<and> files (print ?skip (?B w)) ''b.ico''
                   = Some (Encoded ICO [resized env rgb (64, 64)]))
            \<and> Generated_ico ''b'' ''b.webp'' \<in> set (out (print ?skip (?B w)))"
        by (simp add: print_def)
    qed
    from 1 2 3 4 show ?thesis unfolding r by (intro conjI)
  qed
qed

theorem skip_if_exists_scenario_witness:
  "distinct [''a.webp'', ''b.webp'', ''a.ico'']
   \<and> set (filter is_webp [''a.webp'', ''b.webp'', ''a.ico'']) = {''a.webp'', ''b.webp''}
   \<and> files scenario_dir ''a.ico'' = Some (Bytes [1, 2, 3])
   \<and> files (convert_all_webp_to_ico flat_platform [''a.webp'', ''b.webp'', ''a.ico''] scenario_dir)
        ''a.ico'' = Some (Bytes [1, 2, 3])
   \<and> files (convert_all_webp_to_ico flat_platform [''a.webp'', ''b.webp'', ''a.ico''] scenario_dir)
        ''b.ico''
     = Some (Encoded ICO
         [\<lparr>im_size = (64, 64), im_data = Pix_RGB (replicate 4096 (227, 142, 142))\<rparr>])
   \<and> Skip_ico ''a'' ''a.webp''
       \<in> set (out (convert_all_webp_to_ico flat_platform [''a.webp'', ''b.webp'', ''a.ico'']
                  scenario_dir))"
proof -
  let ?l = "[''a.webp'', ''b.webp'', ''a.ico'']"
  have d: "distinct ?l" by simp
  have s: "set (filter is_webp ?l) = {''a.webp'', ''b.webp''}"
    by (simp add: is_webp_ab)
  have o: "files scenario_dir ''a.ico'' = Some (Bytes [1, 2, 3])"
    by (simp add: scenario_dir_def)
  have h: "files scenario_dir ''b.ico'' = None
      \<and> files scenario_dir ''b.webp'' = Some (Encoded WEBP [glass_logo])
      \<and> decode flat_platform (Encoded WEBP [glass_logo]) = Some glass_logo
      \<and> \<not> write_denied flat_platform ''b.ico''"
    by (simp add: scenario_dir_def flat_platform_def)
  have f: "flatten_image_to_white glass_logo
      = Inr \<lparr>im_size = (1, 1), im_data = Pix_RGB [(227, 142, 142)]\<rparr>"
    by (simp add: flatten_image_to_white_def glass_logo_def im_mode_def Image_paste_def
        Image_new_RGBA_def convert_RGB_def blend8_def div255_def)
  have r: "resized flat_platform \<lparr>im_size = (1, 1), im_data = Pix_RGB [(227, 142, 142)]\<rparr> (64, 64)
      = \<lparr>im_size = (64, 64), im_data = Pix_RGB (replicate 4096 (227, 142, 142))\<rparr>"
    by (simp add: resized_def resampled_def im_mode_def flat_platform_def)
  note t = skip_if_exists_scenario [OF d s o,
      where c = "Encoded WEBP [glass_logo]" and env = flat_platform and img = glass_logo]
  from t h f have "files (convert_all_webp_to_ico flat_platform ?l scenario_dir) ''b.ico''
      = Some (Encoded ICO
          [resized flat_platform \<lparr>im_size = (1, 1), im_data = Pix_RGB [(227, 142, 142)]\<rparr> (64, 64)])"
    by auto
  with t d s o r show ?thesis by simp
qed

subsection \<open>Order of the tasks\<close>

lemma observed_convert_single_webp:
  "observed (convert_single_webp env n f w) = ico_effect f (ico_outcome env n w f) (observed w)"
  by (auto simp: convert_single_webp_def Let_def ico_outcome_def ico_effect_def observed_def
        bind_in_def bind_result_def save_image_def Image_save_def exists_def print_def
        split: sum.splits if_splits)

lemma ico_outcome_cong:
  "files v f = files w f \<Longrightarrow> ico_outcome env n v f = ico_outcome env n w f"
  by (simp add: ico_outcome_def load_image_def exists_def Image_open_def)

lemma endswith_last: "endswith s suf \<Longrightarrow> suf \<noteq> [] \<Longrightarrow> last s = last suf"
  unfolding endswith_def
  by (metis diff_less last_drop length_greater_0_conv less_le_trans)

lemma not_webp_ico: "\<not> is_webp (b @ ''.ico'')"
proof
  assume "is_webp (b @ ''.ico'')"
  then have "endswith (lower b @ ''.ico'') ''.webp''"
    by (simp add: is_webp_def lower_def lower_char_def)
  then have "last (lower b @ ''.ico'') = last ''.webp''"
    by (rule endswith_last) simp
  then show False by simp
qed

lemma files_convert_single_webp_other:
  "p \<noteq> fst (splitext f) @ ''.ico'' \<Longrightarrow> files (convert_single_webp env n f w) p = files w p"
  by (auto simp: convert_single_webp_def Let_def bind_in_def save_image_def Image_save_def
        print_def split: sum.splits if_splits)

lemma observed_fold_convert:
  assumes "\<forall>f \<in> set fs. is_webp f" and "\<forall>f \<in> set fs. files v f = files w f"
  shows "observed (fold (convert_single_webp env n) fs v)
     = fold (\<lambda>f. ico_effect f (ico_outcome env n w f)) fs (observed v)"
  using assms
proof (induction fs arbitrary: v)
  case Nil
  show ?case by simp
next
  case (Cons g fs)
  let ?v = "convert_single_webp env n g v"
  have k: "\<forall>f \<in> set fs. files ?v f = files w f"
  proof
    fix f assume f: "f \<in> set fs"
    with Cons.prems have "is_webp f" by simp
    with not_webp_ico [of "fst (splitext g)"] have "f \<noteq> fst (splitext g) @ ''.ico''" by auto
    then have "files ?v f = files v f" by (rule files_convert_single_webp_other)
    with Cons.prems f show "files ?v f = files w f" by simp
  qed
  from Cons.prems have "\<forall>f \<in> set fs. is_webp f" by simp
  then have "observed (fold (convert_single_webp env n) fs ?v)
     = fold (\<lambda>f. ico_effect f (ico_outcome env n w f)) fs (observed ?v)"
    using k by (rule Cons.IH)
  moreover from Cons.prems have "ico_outcome env n v g = ico_outcome env n w g"
    by (intro ico_outcome_cong) simp
  ultimately show ?case by (simp add: observed_convert_single_webp)
qed

lemma ico_effect_commute:
  assumes "fst (splitext f) \<noteq> fst (splitext g) \<or> f = g"
  shows "ico_effect f (r f) \<circ> ico_effect g (r g) = ico_effect g (r g) \<circ> ico_effect f (r f)"
  using assms
  by (auto simp: ico_effect_def fun_eq_iff fun_upd_twist split: sum.splits option.splits)


lemma mset_map_inv:
  "mset xs = mset (map f ys) \<Longrightarrow> \<exists>zs. xs = map f zs \<and> mset zs = mset ys"
proof (induction xs arbitrary: ys)
  case Nil
  then show ?case by simp
next
  case (Cons x xs)
  from Cons.prems have "x \<in> set (map f ys)"
    by (metis list.set_intros(1) mset_eq_setD)
  then obtain y where y: "y \<in> set ys" "f y = x" by auto
  have "mset (map f (remove1 y ys)) = mset (map f ys) - {#f y#}"
    using y(1) by (simp add: image_mset_Diff)
  with Cons.prems y(2) have "mset xs = mset (map f (remove1 y ys))"
    by (metis add_mset_remove_trivial mset.simps(2))
  from Cons.IH [OF this] obtain zs where zs: "xs = map f zs" "mset zs = mset (remove1 y ys)"
    by blast
  with y have "x # xs = map f (y # zs) \<and> mset (y # zs) = mset ys" by simp
  then show ?case by (rule exI [of _ "y # zs"])
qed

lemma asset_tasks_eq: "asset_tasks env img = map (put_asset env) (logo_assets env img)"
proof -
  have "generate_png_icon env (Whole img) (n, wd, ht)
      = put_asset env (n, Encoded PNG [resized env (ensure_rgba img) (wd, ht)],
          Replaced_sized n wd ht)"
    if "n \<noteq> []" "0 < wd" "0 < ht" "wd \<le> 256" "ht \<le> 256" for n wd ht
    using that by (intro ext) (rule generate_png_icon_eq)
  moreover have "generate_favicon_ico env (Whole img) = put_asset env (logo_assets env img ! 3)"
    by (intro ext) (rule generate_favicon_ico_eq)
  moreover have "generate_preview_png env (Whole img) = put_asset env (logo_assets env img ! 4)"
    by (intro ext) (rule generate_preview_png_eq)
  moreover have "generate_preview_jpg env (Whole img) = put_asset env (logo_assets env img ! 5)"
    by (intro ext) (rule generate_preview_jpg_eq)
  moreover have "generate_preview_webp env (Whole img) = put_asset env (logo_assets env img ! 6)"
    by (intro ext) (rule generate_preview_webp_eq)
  ultimately show ?thesis
    by (simp add: asset_tasks_def icon_targets_def) (simp add: logo_assets_def)
qed

lemma gather_map: "gather (map f xs) w = fold f xs w"
  by (simp add: gather_def fold_map comp_def)

lemma files_fold_put_perm:
  assumes "mset as = mset bs" "distinct (map fst bs)"
  shows "files (fold (put_asset env) as w) = files (fold (put_asset env) bs w)"
proof
  fix p
  from assms(1) have "mset (map fst as) = mset (map fst bs)" by simp
  with assms(2) have da: "distinct (map fst as)"
    by (metis mset_eq_imp_distinct_iff)
  from assms(1) have se: "set as = set bs" by (rule mset_eq_setD)
  show "files (fold (put_asset env) as w) p = files (fold (put_asset env) bs w) p"
  proof (cases "p \<in> fst ` set bs")
    case True
    then obtain c ok where m: "(p, c, ok) \<in> set bs" by force
    with se have "(p, c, ok) \<in> set as" by simp
    from files_fold_put [OF da this] files_fold_put [OF assms(2) m] show ?thesis by simp
  next
    case False
    with se show ?thesis by (simp add: files_fold_put_other)
  qed
qed

text \<open>
  C9, as the scripts have it. With a logo that decodes, the seven per-asset operations
  of Mode B run in any order leave the files \<open>generate_all_assets\<close> leaves and print
  the same messages up to their order. For two listings of the same directory in which
  no two \<^verbatim>\<open>.webp\<close> files share the name before the extension, the replacing bulk
  conversion leaves the same files and prints the same messages up to their order.
\<close>

theorem written_files_do_not_depend_on_order:
  assumes "files w LOGO_FILENAME = Some c0" and "decode env c0 = Some img"
    and ts: "mset ts = mset (asset_tasks env img)"
    and d: "distinct l1" "distinct l2" and se: "set l1 = set l2"
    and inj: "inj_on (\<lambda>f. fst (splitext f)) (set (filter is_webp l1))"
  shows "files (gather ts w) = files (generate_all_assets env w)
       \<and> mset (out (gather ts w)) = mset (out (generate_all_assets env w))
       \<and> files (WebpToIcoConverter_convert_all_webp_to_ico env n l1 v)
           = files (WebpToIcoConverter_convert_all_webp_to_ico env n l2 v)
       \<and> mset (out (WebpToIcoConverter_convert_all_webp_to_ico env n l1 v))
           = mset (out (WebpToIcoConverter_convert_all_webp_to_ico env n l2 v))"
proof -
  let ?L = "logo_assets env img"
  from ts obtain as where as: "ts = map (put_asset env) as" "mset as = mset ?L"
    unfolding asset_tasks_eq using mset_map_inv by blast
  have g: "generate_all_assets env w = fold (put_asset env) ?L w"
    using assms(1,2) by (rule generate_all_assets_eq)
  have a1: "files (gather ts w) = files (generate_all_assets env w)"
    unfolding g as(1) gather_map using as(2) distinct_logo_assets by (rule files_fold_put_perm)
  have "mset (map (report env) as) = mset (map (report env) ?L)"
    using as(2) by simp
  then have a2: "mset (out (gather ts w)) = mset (out (generate_all_assets env w))"
    unfolding g as(1) gather_map out_fold_put by simp
  let ?W = "WebpToIcoConverter_convert_all_webp_to_ico env n"
  let ?f1 = "filter is_webp l1" and ?f2 = "filter is_webp l2"
  let ?T = "\<lambda>f. ico_effect f (ico_outcome env n v f)"
  have s12: "set ?f1 = set ?f2" using se by simp
  from d have "set l1 = set l2 \<longleftrightarrow> mset l1 = mset l2"
    by (rule set_eq_iff_mset_eq_distinct)
  with se have "mset l1 = mset l2" by simp
  then have m12: "mset ?f1 = mset ?f2" by simp
  have obs: "observed (?W l v) = (if filter is_webp l = [] then observed (print No_webp_files v)
       else fold ?T (filter is_webp l) (observed v))" for l
    using observed_fold_convert [of "filter is_webp l" v v env n]
    by (simp add: WebpToIcoConverter_convert_all_webp_to_ico_def gather_map)
  have comm: "?T x \<circ> ?T y = ?T y \<circ> ?T x" if "x \<in> set ?f1" "y \<in> set ?f1" for x y
  proof -
    from inj that have "fst (splitext x) \<noteq> fst (splitext y) \<or> x = y"
      by (auto dest: inj_onD)
    then show ?thesis by (rule ico_effect_commute [of x y "ico_outcome env n v"])
  qed
  from comm m12 have "fold ?T ?f1 = fold ?T ?f2" by (rule fold_multiset_equiv)
  moreover from s12 have "?f1 = [] \<longleftrightarrow> ?f2 = []" by (metis set_empty)
  ultimately have "observed (?W l1 v) = observed (?W l2 v)"
    by (simp add: obs)
  then have b: "files (?W l1 v) = files (?W l2 v)" "mset (out (?W l1 v)) = mset (out (?W l2 v))"
    by (simp_all add: observed_def)
  from a1 a2 b show ?thesis by (intro conjI)
qed

theorem written_files_do_not_depend_on_order_witness:
  "files (logo_dir glass_logo) LOGO_FILENAME = Some (Encoded PNG [glass_logo])
   \<and> decode flat_platform (Encoded PNG [glass_logo]) = Some glass_logo
   \<and> mset (rev (asset_tasks flat_platform glass_logo)) = mset (asset_tasks flat_platform glass_logo)
   \<and> distinct [''a.webp'', ''b.webp'', ''a.ico''] \<and> distinct [''a.ico'', ''b.webp'', ''a.webp'']
   \<and> set [''a.webp'', ''b.webp'', ''a.ico''] = set [''a.ico'', ''b.webp'', ''a.webp'']
   \<and> inj_on (\<lambda>f. fst (splitext f)) (set (filter is_webp [''a.webp'', ''b.webp'', ''a.ico'']))
   \<and> files (gather (rev (asset_tasks flat_platform glass_logo)) (logo_dir glass_logo))
       = files (generate_all_assets flat_platform (logo_dir glass_logo))
   \<and> mset (out (gather (rev (asset_tasks flat_platform glass_logo)) (logo_dir glass_logo)))
       = mset (out (generate_all_assets flat_platform (logo_dir glass_logo)))
   \<and> files (WebpToIcoConverter_convert_all_webp_to_ico flat_platform 64
              [''a.webp'', ''b.webp'', ''a.ico''] scenario_dir)
       = files (WebpToIcoConverter_convert_all_webp_to_ico flat_platform 64
              [''a.ico'', ''b.webp'', ''a.webp''] scenario_dir)
   \<and> mset (out (WebpToIcoConverter_convert_all_webp_to_ico flat_platform 64
              [''a.webp'', ''b.webp'', ''a.ico''] scenario_dir))
       = mset (out (WebpToIcoConverter_convert_all_webp_to_ico flat_platform 64
              [''a.ico'', ''b.webp'', ''a.webp''] scenario_dir))"
proof -
  have h1: "files (logo_dir glass_logo) LOGO_FILENAME = Some (Encoded PNG [glass_logo])"
    by (simp add: logo_dir_def)
  have h2: "decode flat_platform (Encoded PNG [glass_logo]) = Some glass_logo"
    by (simp add: flat_platform_def)
  have h3: "mset (rev (asset_tasks flat_platform glass_logo))
      = mset (asset_tasks flat_platform glass_logo)"
    by simp
  have h4: "distinct [''a.webp'', ''b.webp'', ''a.ico'']" "distinct [''a.ico'', ''b.webp'', ''a.webp'']"
    by simp_all
  have h5: "set [''a.webp'', ''b.webp'', ''a.ico''] = set [''a.ico'', ''b.webp'', ''a.webp'']"
    by auto
  have h6: "inj_on (\<lambda>f. fst (splitext f)) (set (filter is_webp [''a.webp'', ''b.webp'', ''a.ico'']))"
    by (simp add: is_webp_ab splitext_a splitext_b)
  from written_files_do_not_depend_on_order [OF h1 h2 h3 h4 h5 h6, of 64 scenario_dir]
    h1 h2 h3 h4 h5 h6
  show ?thesis by (intro conjI) blast+
qed

text \<open>
  C9 as stated fails where two sources differ only in the case of the extension: both
  are written to \<^verbatim>\<open>a.ico\<close>, and the file that remains is the one converted last.
\<close>

lemma splitext_A: "splitext ''a.WEBP'' = (''a'', ''.WEBP'')"
  by (simp add: splitext_def rfind_def)

lemma is_webp_A: "is_webp ''a.WEBP''"
  by (simp add: is_webp_def endswith_def lower_def lower_char_def)

theorem twin_sources_depend_on_order:
  "files (WebpToIcoConverter_convert_all_webp_to_ico flat_platform WEBP_TO_ICO_SIZE
            [''a.webp'', ''a.WEBP''] twin_dir) ''a.ico''
     = Some (Encoded ICO
         [\<lparr>im_size = (64, 64), im_data = Pix_RGBA (replicate 4096 (0, 0, 0, 0))\<rparr>])
   \<and> files (WebpToIcoConverter_convert_all_webp_to_ico flat_platform WEBP_TO_ICO_SIZE
            [''a.WEBP'', ''a.webp''] twin_dir) ''a.ico''
     = Some (Encoded ICO
         [\<lparr>im_size = (64, 64), im_data = Pix_RGBA (replicate 4096 (200, 30, 30, 128))\<rparr>])"
proof -
  let ?W = "WebpToIcoConverter_convert_all_webp_to_ico flat_platform 64"
  let ?T = "\<lambda>f. ico_effect f (ico_outcome flat_platform 64 twin_dir f)"
  have obs: "observed (?W l twin_dir) = fold ?T l (observed twin_dir)"
    if "l = [''a.webp'', ''a.WEBP''] \<or> l = [''a.WEBP'', ''a.webp'']" for l
    using that observed_fold_convert [of l twin_dir twin_dir flat_platform 64]
    by (auto simp: WebpToIcoConverter_convert_all_webp_to_ico_def gather_def is_webp_ab is_webp_A)
  have o1: "ico_outcome flat_platform 64 twin_dir ''a.webp''
      = Inr (Encoded ICO
          [\<lparr>im_size = (64, 64), im_data = Pix_RGBA (replicate 4096 (200, 30, 30, 128))\<rparr>])"
    by (simp add: ico_outcome_def load_image_def exists_def twin_dir_def Image_open_def
        Image_load_def flat_platform_def bind_result_def ensure_rgba_def im_mode_def
        glass_logo_def resize_def Image_resize_def out_of_memory_def resampled_def splitext_a
        encode_def ico_frames_def)
  have o2: "ico_outcome flat_platform 64 twin_dir ''a.WEBP''
      = Inr (Encoded ICO
          [\<lparr>im_size = (64, 64), im_data = Pix_RGBA (replicate 4096 (0, 0, 0, 0))\<rparr>])"
    by (simp add: ico_outcome_def load_image_def exists_def twin_dir_def Image_open_def
        Image_load_def flat_platform_def bind_result_def ensure_rgba_def im_mode_def
        clear_logo_def resize_def Image_resize_def out_of_memory_def resampled_def splitext_A
        encode_def ico_frames_def)
  have "fst (observed (?W [''a.webp'', ''a.WEBP''] twin_dir)) ''a.ico''
      = Some (Encoded ICO
          [\<lparr>im_size = (64, 64), im_data = Pix_RGBA (replicate 4096 (0, 0, 0, 0))\<rparr>])"
    by (simp add: obs o1 o2 ico_effect_def splitext_a splitext_A)
  moreover have "fst (observed (?W [''a.WEBP'', ''a.webp''] twin_dir)) ''a.ico''
      = Some (Encoded ICO
          [\<lparr>im_size = (64, 64), im_data = Pix_RGBA (replicate 4096 (200, 30, 30, 128))\<rparr>])"
    by (simp add: obs o1 o2 ico_effect_def splitext_a splitext_A)
  ultimately show ?thesis by (simp add: observed_def)
qed

subsection \<open>Sources that open and do not load, and frames that do not fit\<close>

text \<open>
  A logo whose header can be read and whose pixel data cannot opens. The replacing
  script then fails in each of its seven \<^verbatim>\<open>try\<close> blocks and writes nothing; the
  conservative script fails in the block that opens and flattens the logo.
\<close>

lemma cut_logo_replacing:
  assumes "files w LOGO_FILENAME = Some c0" "decode env c0 = None" "header_only env c0"
  shows "generate_all_assets env w
     = w\<lparr>out := out w @ map (\<lambda>name. Error_generating name OSError)
          [FAVICON_16, FAVICON_32, APPLE_TOUCH_ICON, FAVICON_ICO,
           PREVIEW_PNG, PREVIEW_JPG, PREVIEW_WEBP]\<rparr>"
proof -
  have "load_image env w LOGO_FILENAME = Inr Cut"
    using assms by (simp add: load_image_def exists_def Image_open_def)
  with assms(1) show ?thesis
    by (simp add: generate_all_assets_def exists_def gather_def generate_png_icons_def
        icon_targets_def generate_png_icon_def generate_favicon_ico_def
        generate_preview_images_def generate_preview_png_def generate_preview_jpg_def
        generate_preview_webp_def Image_load_def bind_in_def print_def)
qed

lemma cut_logo_conservative:
  assumes "files w ''logo.png'' = Some c0" "decode env c0 = None" "header_only env c0"
  shows "generate_icons_from_logo env w = print (Error_opening ''logo.png'' OSError) w"
  using assms
  by (simp add: generate_icons_from_logo_def exists_def Image_open_def Image_load_def
      bind_result_def)

text \<open>
  Asked for a side above 256, the replacing bulk conversion resizes the source and the
  ICO encoder then finds no size that fits: the file is reported with \<^verbatim>\<open>ValueError\<close>,
  and a destination that existed holds what the failed encoder left of it.
\<close>

lemma oversized_ico:
  assumes "f \<noteq> []" "files w f = Some c" "decode env c = Some img"
    and "256 < n" "n < 2 ^ 31" "\<not> exhausted env Mode_RGBA (im_size img) (n, n)"
    and "\<not> write_denied env (fst (splitext f) @ ''.ico'')"
    and "files w (fst (splitext f) @ ''.ico'') = Some old"
  shows "convert_single_webp env n f w
     = print (Error_converting f ValueError)
         (w\<lparr>files := (files w)(fst (splitext f) @ ''.ico'' \<mapsto> Bytes (truncated env ICO))\<rparr>)"
proof -
  have l: "load_image env w f = Inr (Whole img)"
    using assms by (simp add: load_image_def exists_def Image_open_def)
  from assms(4-6) have "\<exists>r. resize env (ensure_rgba img) (n, n) = Inr r"
    by (simp add: resize_def Image_resize_def out_of_memory_def im_mode_ensure_rgba
        im_size_ensure_rgba)
  then obtain r where r: "resize env (ensure_rgba img) (n, n) = Inr r" ..
  from assms(4) have "ico_frames env r [(n, n)] = []"
    by (simp add: ico_frames_def)
  then have "encode env r ICO [(n, n)] = Inl ValueError"
    by (simp add: encode_def)
  with l r assms show ?thesis
    by (simp add: convert_single_webp_def Let_def bind_in_def Image_load_def save_image_def
        Image_save_def exists_def)
qed

end
